theory Spec2Isabelle
  imports Complex_Main "HOL-Library.Char_ord" "HOL-Library.List_Lexorder"
begin

section \<open>Strings\<close>

text \<open>
  Python strings are modelled as \<open>string\<close>: one \<open>char\<close> per code point, which is exact
  for texts whose code points lie in 0..255 (ASCII and Latin-1). The character classes
  below are Python's on that range: \<open>str.isspace\<close>, \<open>string.punctuation\<close> and the
  case mapping of \<open>str.lower\<close>.
\<close>

definition isspace :: "char \<Rightarrow> bool" where
  "isspace c =
     (let n = (of_char c :: nat)
      in (9 \<le> n \<and> n \<le> 13) \<or> (28 \<le> n \<and> n \<le> 32) \<or> n = 133 \<or> n = 160)"

definition punctuation :: "char \<Rightarrow> bool" where
  "punctuation c =
     (let n = (of_char c :: nat)
      in (33 \<le> n \<and> n \<le> 47) \<or> (58 \<le> n \<and> n \<le> 64) \<or>
         (91 \<le> n \<and> n \<le> 96) \<or> (123 \<le> n \<and> n \<le> 126))"

definition lower_char :: "char \<Rightarrow> char" where
  "lower_char c =
     (let n = (of_char c :: nat)
      in if (65 \<le> n \<and> n \<le> 90) \<or> (192 \<le> n \<and> n \<le> 214) \<or> (216 \<le> n \<and> n \<le> 222)
         then char_of (n + 32) else c)"

definition lower :: "string \<Rightarrow> string" where
  "lower s = map lower_char s"

text \<open>
  \<open>split_on sep w s\<close> cuts \<open>s\<close> at the characters satisfying \<open>sep\<close> and returns the
  non-empty pieces in order; \<open>w\<close> is the piece being read, reversed. With \<open>isspace\<close> it
  is \<open>str.split()\<close>.
\<close>

fun split_on :: "(char \<Rightarrow> bool) \<Rightarrow> string \<Rightarrow> string \<Rightarrow> string list" where
  "split_on sep w [] = (if w = [] then [] else [rev w])"
| "split_on sep w (c # cs) =
     (if sep c then (if w = [] then split_on sep [] cs else rev w # split_on sep [] cs)
      else split_on sep (c # w) cs)"

definition split :: "string \<Rightarrow> string list" where
  "split s = split_on isspace [] s"

fun join :: "string \<Rightarrow> string list \<Rightarrow> string" where
  "join sep [] = []"
| "join sep [w] = w"
| "join sep (w # v # ws) = w @ sep @ join sep (v # ws)"

definition strip :: "string \<Rightarrow> string" where
  "strip s = rev (dropWhile isspace (rev (dropWhile isspace s)))"

definition preprocess_text :: "string \<Rightarrow> string" where
  "preprocess_text text =
     (let text1 = lower text;
          text2 = filter (\<lambda>c. \<not> punctuation c) text1
      in join '' '' (split text2))"

section \<open>Exceptions, numbers and the external libraries\<close>

text \<open>An exception is the value it is caught as; \<open>str\<close> is its message.\<close>

datatype exn = Exception string

fun str :: "exn \<Rightarrow> string" where
  "str (Exception msg) = msg"

text \<open>
  Scores are real numbers. \<open>round2 x\<close> is \<open>round(x, 2)\<close>: the nearest multiple of
  1/100, a tie going to the even one.
\<close>

definition round_half_even :: "real \<Rightarrow> int" where
  "round_half_even x =
     (let f = \<lfloor>x\<rfloor>; d = x - of_int f
      in if d < 1 / 2 then f else if 1 / 2 < d then f + 1 else if even f then f else f + 1)"

definition round2 :: "real \<Rightarrow> real" where
  "round2 x = of_int (round_half_even (x * 100)) / 100"

text \<open>
  The libraries the code calls are arguments of the model: the sentence tokenizer
  (\<open>sent_tokenize\<close>), the vectorizer (\<open>TfidfVectorizer().fit_transform\<close>), the pairwise
  \<open>cosine_similarity\<close> and the embedding model (\<open>sentence_model.encode\<close>). Each returns
  its value or the exception it raises. A matrix is the list of its rows.
\<close>

type_synonym matrix = "real list list"
type_synonym tokenizer = "string \<Rightarrow> exn + string list"
type_synonym vectorizer = "string list \<Rightarrow> exn + matrix"
type_synonym cosine = "matrix \<Rightarrow> matrix \<Rightarrow> exn + matrix"
type_synonym encoder = "string list \<Rightarrow> exn + matrix"

text \<open>\<open>item xs i\<close> is \<open>xs[i]\<close> for \<open>i \<ge> 0\<close>: an index out of range raises.\<close>

definition item :: "'a list \<Rightarrow> nat \<Rightarrow> exn + 'a" where
  "item xs i = (if i < length xs then Inr (xs ! i) else Inl (Exception ''index out of range''))"

text \<open>
  Modelled from the spec: numpy's \<open>argmax\<close> is not part of the repository. It returns the
  index of the maximum, the first one when several entries attain it (the spec: ties broken
  by first-encountered order in B), and raises on an empty sequence.
\<close>

fun argmax_from :: "real list \<Rightarrow> nat \<Rightarrow> nat \<Rightarrow> real \<Rightarrow> nat" where
  "argmax_from [] i best_i best = best_i"
| "argmax_from (x # xs) i best_i best =
     (if best < x then argmax_from xs (Suc i) i x else argmax_from xs (Suc i) best_i best)"

definition argmax :: "real list \<Rightarrow> exn + nat" where
  "argmax xs =
     (case xs of
        [] \<Rightarrow> Inl (Exception ''attempt to get argmax of an empty sequence'')
      | x # r \<Rightarrow> Inr (argmax_from r 1 0 x))"

section \<open>Tier 1: document similarity\<close>

text \<open>
  The three lines Tier 1 and Tier 2 share: fit the vectorizer on the two texts, take the
  cosine similarity of row 0 and row 1, read entry \<open>[0][0]\<close>.
\<close>

definition tfidf_pair_similarity :: "vectorizer \<Rightarrow> cosine \<Rightarrow> string \<Rightarrow> string \<Rightarrow> exn + real" where
  "tfidf_pair_similarity fit_transform cosine_similarity d1 d2 =
     (case fit_transform [d1, d2] of
        Inl e \<Rightarrow> Inl e
      | Inr tfidf_matrix \<Rightarrow>
          (case cosine_similarity (take 1 tfidf_matrix) (take 1 (drop 1 tfidf_matrix)) of
             Inl e \<Rightarrow> Inl e
           | Inr c \<Rightarrow> (case item c 0 of Inl e \<Rightarrow> Inl e | Inr row \<Rightarrow> item row 0)))"

text \<open>
  Result dictionaries are records; a key that some return statements leave out is an
  \<open>option\<close> field.
\<close>

record tier_result =
  method_name :: string
  error :: "string option"
  explanation :: "string option"

record level1_result = tier_result +
  similarity_percentage :: real

definition level1_tfidf_similarity :: "vectorizer \<Rightarrow> cosine \<Rightarrow> string \<Rightarrow> string \<Rightarrow> level1_result" where
  "level1_tfidf_similarity fit_transform cosine_similarity text1 text2 =
     (let processed_text1 = preprocess_text text1;
          processed_text2 = preprocess_text text2
      in case tfidf_pair_similarity fit_transform cosine_similarity processed_text1 processed_text2 of
           Inr similarity \<Rightarrow>
             \<lparr>method_name = ''TF-IDF + Cosine Similarity'',
              error = None,
              explanation = Some ''Measures word overlap and frequency similarity'',
              similarity_percentage = round2 (similarity * 100)\<rparr>
         | Inl e \<Rightarrow>
             \<lparr>method_name = ''TF-IDF + Cosine Similarity'',
              error = Some (str e),
              explanation = None,
              similarity_percentage = 0\<rparr>)"

section \<open>Tier 2: sentence alignment\<close>

record match_base =
  sentence :: string
  matching_sentence :: string
  position :: nat

record match = match_base +
  similarity :: real

record alignment_result = tier_result +
  total_sentences :: "nat option"
  threshold :: "real option"

record level2_result = alignment_result +
  plagiarized_sentences :: "match list"
  plagiarized_count :: nat

text \<open>
  The inner loop over the sentences of text2, on the pair
  \<open>(max_similarity, matching_sentence)\<close>. A short sentence is skipped, and so is a pair
  whose vectorization raises.
\<close>

fun level2_best_match ::
  "vectorizer \<Rightarrow> cosine \<Rightarrow> string \<Rightarrow> string list \<Rightarrow> real \<times> string \<Rightarrow> real \<times> string" where
  "level2_best_match fit_transform cosine_similarity processed_sent1 [] best = best"
| "level2_best_match fit_transform cosine_similarity processed_sent1 (sent2 # rest)
       (max_similarity, matching) =
     (if length (strip sent2) < 10
      then level2_best_match fit_transform cosine_similarity processed_sent1 rest
             (max_similarity, matching)
      else
        (case tfidf_pair_similarity fit_transform cosine_similarity processed_sent1
                (preprocess_text sent2) of
           Inl e \<Rightarrow>
             level2_best_match fit_transform cosine_similarity processed_sent1 rest
               (max_similarity, matching)
         | Inr sim \<Rightarrow>
             (if max_similarity < sim
              then level2_best_match fit_transform cosine_similarity processed_sent1 rest
                     (sim, sent2)
              else level2_best_match fit_transform cosine_similarity processed_sent1 rest
                     (max_similarity, matching))))"

text \<open>The outer loop over \<open>enumerate(sentences1)\<close>, from index \<open>idx\<close> on.\<close>

fun level2_loop ::
  "vectorizer \<Rightarrow> cosine \<Rightarrow> real \<Rightarrow> string list \<Rightarrow> nat \<Rightarrow> string list \<Rightarrow> match list" where
  "level2_loop fit_transform cosine_similarity thr sentences2 idx [] = []"
| "level2_loop fit_transform cosine_similarity thr sentences2 idx (sent1 # rest) =
     (if length (strip sent1) < 10
      then level2_loop fit_transform cosine_similarity thr sentences2 (Suc idx) rest
      else
        (case level2_best_match fit_transform cosine_similarity (preprocess_text sent1)
                sentences2 (0, '''') of
           (max_similarity, matching) \<Rightarrow>
             (if thr \<le> max_similarity
              then \<lparr>sentence = sent1,
                    matching_sentence = matching,
                    position = idx + 1,
                    similarity = round2 (max_similarity * 100)\<rparr>
                   # level2_loop fit_transform cosine_similarity thr sentences2 (Suc idx) rest
              else level2_loop fit_transform cosine_similarity thr sentences2 (Suc idx) rest)))"

definition level2_error :: "exn \<Rightarrow> level2_result" where
  "level2_error e =
     \<lparr>method_name = ''Sentence-Level Detection'',
      error = Some (str e),
      explanation = None,
      total_sentences = Some 0,
      threshold = None,
      plagiarized_sentences = [],
      plagiarized_count = 0\<rparr>"

definition level2_sentence_level ::
  "tokenizer \<Rightarrow> vectorizer \<Rightarrow> cosine \<Rightarrow> string \<Rightarrow> string \<Rightarrow> real \<Rightarrow> level2_result" where
  "level2_sentence_level sent_tokenize fit_transform cosine_similarity text1 text2 thr =
     (case sent_tokenize text1 of
        Inl e \<Rightarrow> level2_error e
      | Inr sentences1 \<Rightarrow>
          (case sent_tokenize text2 of
             Inl e \<Rightarrow> level2_error e
           | Inr sentences2 \<Rightarrow>
               (if sentences1 = [] \<or> sentences2 = []
                then \<lparr>method_name = ''Sentence-Level Detection'',
                      error = None,
                      explanation = None,
                      total_sentences = Some (length sentences1),
                      threshold = None,
                      plagiarized_sentences = [],
                      plagiarized_count = 0\<rparr>
                else
                  (let plagiarized =
                         level2_loop fit_transform cosine_similarity thr sentences2 0 sentences1
                   in \<lparr>method_name = ''Sentence-Level Detection'',
                       error = None,
                       explanation = None,
                       total_sentences = Some (length sentences1),
                       threshold = Some (thr * 100),
                       plagiarized_sentences = plagiarized,
                       plagiarized_count = length plagiarized\<rparr>))))"

section \<open>Tier 3: semantic alignment\<close>

record semantic_match = match_base +
  semantic_similarity :: real
  type_tag :: string

record level3_result = alignment_result +
  semantic_plagiarized_sentences :: "semantic_match list"
  semantic_plagiarized_count :: "nat option"

text \<open>
  The similarities of one sentence of text1 against the embeddings of text2:
  \<open>cosine_similarity([sentence_model.encode([sent1])[0]], embeddings2)[0]\<close>.
\<close>

definition level3_similarities :: "encoder \<Rightarrow> cosine \<Rightarrow> string \<Rightarrow> matrix \<Rightarrow> exn + real list" where
  "level3_similarities encode cosine_similarity sent1 embeddings2 =
     (case encode [sent1] of
        Inl e \<Rightarrow> Inl e
      | Inr encoded \<Rightarrow>
          (case item encoded 0 of
             Inl e \<Rightarrow> Inl e
           | Inr embedding1 \<Rightarrow>
               (case cosine_similarity [embedding1] embeddings2 of
                  Inl e \<Rightarrow> Inl e
                | Inr c \<Rightarrow> item c 0)))"

text \<open>
  The loop over \<open>enumerate(sentences1)\<close>, from index \<open>idx\<close> on. An exception in an
  iteration leaves the loop: the function's handler returns the error result.
\<close>

fun level3_loop ::
  "encoder \<Rightarrow> cosine \<Rightarrow> real \<Rightarrow> string list \<Rightarrow> matrix \<Rightarrow> nat \<Rightarrow> string list \<Rightarrow>
   exn + semantic_match list" where
  "level3_loop encode cosine_similarity thr valid_sentences2 embeddings2 idx [] = Inr []"
| "level3_loop encode cosine_similarity thr valid_sentences2 embeddings2 idx (sent1 # rest) =
     (if length (strip sent1) < 10
      then level3_loop encode cosine_similarity thr valid_sentences2 embeddings2 (Suc idx) rest
      else
        (case level3_similarities encode cosine_similarity sent1 embeddings2 of
           Inl e \<Rightarrow> Inl e
         | Inr similarities \<Rightarrow>
             (case argmax similarities of
                Inl e \<Rightarrow> Inl e
              | Inr max_similarity_idx \<Rightarrow>
                  (let max_similarity = similarities ! max_similarity_idx
                   in if thr \<le> max_similarity
                      then
                        (case item valid_sentences2 max_similarity_idx of
                           Inl e \<Rightarrow> Inl e
                         | Inr matching \<Rightarrow>
                             (case level3_loop encode cosine_similarity thr valid_sentences2
                                     embeddings2 (Suc idx) rest of
                                Inl e \<Rightarrow> Inl e
                              | Inr later \<Rightarrow>
                                  Inr (\<lparr>sentence = sent1,
                                        matching_sentence = matching,
                                        position = idx + 1,
                                        semantic_similarity = round2 (max_similarity * 100),
                                        type_tag = ''semantic''\<rparr> # later)))
                      else level3_loop encode cosine_similarity thr valid_sentences2
                             embeddings2 (Suc idx) rest))))"

definition level3_error :: "exn \<Rightarrow> level3_result" where
  "level3_error e =
     \<lparr>method_name = ''Semantic Similarity (Transformer)'',
      error = Some (str e),
      explanation = None,
      total_sentences = None,
      threshold = None,
      semantic_plagiarized_sentences = [],
      semantic_plagiarized_count = None\<rparr>"

definition level3_empty :: "string list \<Rightarrow> level3_result" where
  "level3_empty sentences1 =
     \<lparr>method_name = ''Semantic Similarity (Transformer)'',
      error = None,
      explanation = None,
      total_sentences = Some (length sentences1),
      threshold = None,
      semantic_plagiarized_sentences = [],
      semantic_plagiarized_count = Some 0\<rparr>"

text \<open>
  \<open>sentence_model\<close> is the module's global: \<open>None\<close> when the model failed to load at
  startup, otherwise the model, used through its \<open>encode\<close>.
\<close>

definition level3_semantic_similarity ::
  "encoder option \<Rightarrow> tokenizer \<Rightarrow> cosine \<Rightarrow> string \<Rightarrow> string \<Rightarrow> real \<Rightarrow> level3_result" where
  "level3_semantic_similarity sentence_model sent_tokenize cosine_similarity text1 text2 thr =
     (case sentence_model of
        None \<Rightarrow>
          \<lparr>method_name = ''Semantic Similarity (Transformer)'',
           error = Some ''Sentence transformer model not available'',
           explanation = None,
           total_sentences = None,
           threshold = None,
           semantic_plagiarized_sentences = [],
           semantic_plagiarized_count = None\<rparr>
      | Some encode \<Rightarrow>
          (case sent_tokenize text1 of
             Inl e \<Rightarrow> level3_error e
           | Inr sentences1 \<Rightarrow>
               (case sent_tokenize text2 of
                  Inl e \<Rightarrow> level3_error e
                | Inr sentences2 \<Rightarrow>
                    (if sentences1 = [] \<or> sentences2 = [] then level3_empty sentences1
                     else
                       (let valid_sentences2 =
                              filter (\<lambda>s. 10 \<le> length (strip s)) sentences2
                        in if valid_sentences2 = [] then level3_empty sentences1
                           else
                             (case encode valid_sentences2 of
                                Inl e \<Rightarrow> level3_error e
                              | Inr embeddings2 \<Rightarrow>
                                  (case level3_loop encode cosine_similarity thr
                                          valid_sentences2 embeddings2 0 sentences1 of
                                     Inl e \<Rightarrow> level3_error e
                                   | Inr semantic_plagiarized \<Rightarrow>
                                       \<lparr>method_name = ''Semantic Similarity (Transformer)'',
                                        error = None,
                                        explanation = Some
                                          ''Detects paraphrased content using meaning-based analysis'',
                                        total_sentences = Some (length sentences1),
                                        threshold = Some (thr * 100),
                                        semantic_plagiarized_sentences = semantic_plagiarized,
                                        semantic_plagiarized_count =
                                          Some (length semantic_plagiarized)\<rparr>)))))))"

section \<open>The endpoint\<close>

text \<open>
  What \<open>request.get_json()\<close> returns: \<open>None\<close>, a JSON object (its keys with their
  values, a value being a string or something else, of a named Python type), or another
  JSON value, of a named Python type, truthy or not.
\<close>

datatype json_value = JString string | JOther string

datatype json = JNone | JObject "(string \<times> json_value) list" | JNonObject string bool

record request =
  request_method :: string
  get_json :: "exn + json"

record summary =
  overall_similarity :: real
  total_plagiarized_sentences :: nat
  summary_semantic_plagiarized_sentences :: nat
  text1_length :: nat
  text2_length :: nat

datatype body =
    Status_ok
  | Error_body string
  | Report level1_result level2_result level3_result summary
  | Internal_error string

text \<open>\<open>not data\<close>: \<open>None\<close>, an empty object and every other falsy value.\<close>

fun falsy :: "json \<Rightarrow> bool" where
  "falsy JNone = True"
| "falsy (JObject kvs) = (kvs = [])"
| "falsy (JNonObject ty truthy) = (\<not> truthy)"

text \<open>
  \<open>data.get(key, '').strip()\<close>: raises when \<open>data\<close> has no \<open>get\<close> or the value has no
  \<open>strip\<close>.
\<close>

definition no_attribute :: "string \<Rightarrow> string \<Rightarrow> exn" where
  "no_attribute ty attr = Exception (ty @ '' object has no attribute '' @ attr)"

fun get_stripped :: "json \<Rightarrow> string \<Rightarrow> exn + string" where
  "get_stripped JNone key = Inl (no_attribute ''NoneType'' ''get'')"
| "get_stripped (JNonObject ty truthy) key = Inl (no_attribute ty ''get'')"
| "get_stripped (JObject kvs) key =
     (case map_of kvs key of
        None \<Rightarrow> Inr (strip [])
      | Some (JString s) \<Rightarrow> Inr (strip s)
      | Some (JOther ty) \<Rightarrow> Inl (no_attribute ty ''strip''))"

definition internal_server_error :: "exn \<Rightarrow> nat \<times> body" where
  "internal_server_error e = (500, Internal_error (str e))"

definition check_plagiarism ::
  "encoder option \<Rightarrow> tokenizer \<Rightarrow> vectorizer \<Rightarrow> cosine \<Rightarrow> request \<Rightarrow> nat \<times> body" where
  "check_plagiarism sentence_model sent_tokenize fit_transform cosine_similarity req =
     (if request_method req = ''OPTIONS'' then (200, Status_ok)
      else
        (case get_json req of
           Inl e \<Rightarrow> internal_server_error e
         | Inr data \<Rightarrow>
             (if falsy data then (400, Error_body ''No JSON data provided'')
              else
                (case get_stripped data ''text1'' of
                   Inl e \<Rightarrow> internal_server_error e
                 | Inr text1 \<Rightarrow>
                     (case get_stripped data ''text2'' of
                        Inl e \<Rightarrow> internal_server_error e
                      | Inr text2 \<Rightarrow>
                          (if text1 = [] \<or> text2 = []
                           then (400, Error_body ''Both text1 and text2 are required'')
                           else if length text1 < 10 \<or> length text2 < 10
                           then (400, Error_body ''Texts must be at least 10 characters long'')
                           else
                             (let level1_result =
                                    level1_tfidf_similarity fit_transform cosine_similarity
                                      text1 text2;
                                  level2_result =
                                    level2_sentence_level sent_tokenize fit_transform
                                      cosine_similarity text1 text2 (7 / 10);
                                  level3_result =
                                    level3_semantic_similarity sentence_model sent_tokenize
                                      cosine_similarity text1 text2 (3 / 4)
                              in (200,
                                  Report level1_result level2_result level3_result
                                    \<lparr>overall_similarity = similarity_percentage level1_result,
                                     total_plagiarized_sentences = plagiarized_count level2_result,
                                     summary_semantic_plagiarized_sentences =
                                       (case semantic_plagiarized_count level3_result of
                                          None \<Rightarrow> 0
                                        | Some n \<Rightarrow> n),
                                     text1_length = length text1,
                                     text2_length = length text2\<rparr>))))))))"

section \<open>Reference models of the libraries\<close>

text \<open>
  Modelled from the spec: the vectorization library (\<open>TfidfVectorizer\<close>,
  \<open>cosine_similarity\<close>) is not part of the repository. The spec (4.3, glossary): a
  term-frequency/inverse-document-frequency vector space over exactly the given documents,
  vocabulary the union of their tokens, one vector per document; cosine similarity is the
  normalized dot product; an empty token set makes the vectorization fail. The details
  the spec leaves open are the library's documented defaults: a token is a run of two or
  more word characters of the lowercased text, the weight of a term is its count times
  \<open>ln ((1 + n) / (1 + df)) + 1\<close>, rows are scaled to Euclidean length 1, and a zero row
  stays zero. Arithmetic is exact, on the reals.
\<close>

definition word_char :: "char \<Rightarrow> bool" where
  "word_char c =
     (let n = (of_char c :: nat)
      in (48 \<le> n \<and> n \<le> 57) \<or> (65 \<le> n \<and> n \<le> 90) \<or> n = 95 \<or> (97 \<le> n \<and> n \<le> 122) \<or>
         n = 170 \<or> n = 178 \<or> n = 179 \<or> n = 181 \<or> n = 185 \<or> n = 186 \<or>
         (188 \<le> n \<and> n \<le> 190) \<or> (192 \<le> n \<and> n \<le> 214) \<or> (216 \<le> n \<and> n \<le> 246) \<or>
         248 \<le> n)"

definition tokens :: "string \<Rightarrow> string list" where
  "tokens doc = filter (\<lambda>w. 2 \<le> length w) (split_on (\<lambda>c. \<not> word_char c) [] doc)"

definition idf :: "string list list \<Rightarrow> string \<Rightarrow> real" where
  "idf docs t =
     ln ((1 + real (length docs)) / (1 + real (length (filter (\<lambda>d. t \<in> set d) docs)))) + 1"

definition l2_norm :: "real list \<Rightarrow> real" where
  "l2_norm v = sqrt (sum_list (map (\<lambda>x. x * x) v))"

definition l2_normalize :: "real list \<Rightarrow> real list" where
  "l2_normalize v = (if l2_norm v = 0 then v else map (\<lambda>x. x / l2_norm v) v)"

definition dot :: "real list \<Rightarrow> real list \<Rightarrow> real" where
  "dot u v = sum_list (map (\<lambda>(x, y). x * y) (zip u v))"

definition tfidf_fit_transform :: vectorizer where
  "tfidf_fit_transform raw_documents =
     (let docs = map (\<lambda>d. tokens (lower d)) raw_documents;
          vocabulary = sorted_list_of_set (set (concat docs))
      in if vocabulary = []
         then Inl (Exception ''empty vocabulary; perhaps the documents only contain stop words'')
         else Inr (map (\<lambda>d. l2_normalize (map (\<lambda>t. real (count_list d t) * idf docs t) vocabulary))
                     docs))"

definition pairwise_cosine :: cosine where
  "pairwise_cosine X Y =
     (if X = [] \<or> Y = [] then Inl (Exception ''Found array with 0 sample(s)'')
      else if \<not> list_all (\<lambda>r. length r = length (hd X)) (X @ Y)
      then Inl (Exception ''Incompatible dimension for X and Y matrices'')
      else Inr (map (\<lambda>x. map (\<lambda>y. dot (l2_normalize x) (l2_normalize y)) Y) X))"

text \<open>
  To run the tiers on concrete texts, two stand-ins for the trained models: a sentence
  splitter that ends a sentence at \<open>.\<close>, \<open>!\<close> or \<open>?\<close> followed by white space or the end
  of the text, and an encoder that counts the letters a to z. The theorems below hold for
  every tokenizer and every encoder; the stand-ins only instantiate them.
\<close>

fun sentences_from :: "string \<Rightarrow> string \<Rightarrow> string list" where
  "sentences_from w [] = (if strip (rev w) = [] then [] else [strip (rev w)])"
| "sentences_from w (c # cs) =
     (if c \<in> set ''.!?'' \<and> (case cs of [] \<Rightarrow> True | d # _ \<Rightarrow> isspace d)
      then strip (rev (c # w)) # sentences_from [] cs
      else sentences_from (c # w) cs)"

definition plain_sent_tokenize :: tokenizer where
  "plain_sent_tokenize text = Inr (sentences_from [] text)"

definition letter_count_encode :: encoder where
  "letter_count_encode sentences =
     Inr (map (\<lambda>s. map (\<lambda>c. real (count_list (lower s) c)) ''abcdefghijklmnopqrstuvwxyz'')
            sentences)"

section \<open>The score of a candidate pair\<close>

text \<open>
  The spec's words for what Tier 2 compares (4.4): a sentence of B of trimmed length
  below 10 is no candidate, and a pair whose vectorization fails contributes no score;
  otherwise the score of the pair is the similarity of the two normalized sentences.
  The loops above do not use this definition; the theorems compare them with it.
\<close>

definition candidate_score :: "vectorizer \<Rightarrow> cosine \<Rightarrow> string \<Rightarrow> string \<Rightarrow> real option" where
  "candidate_score fit_transform cosine_similarity sent1 sent2 =
     (if length (strip sent2) < 10 then None
      else
        (case tfidf_pair_similarity fit_transform cosine_similarity (preprocess_text sent1)
                (preprocess_text sent2) of
           Inl e \<Rightarrow> None
         | Inr score \<Rightarrow> Some score))"

section \<open>The text normalizer\<close>

lemma lower_char_idem: "lower_char (lower_char c) = lower_char c"
proof -
  define n where "n = (of_char c :: nat)"
  define up where
    "up = (\<lambda>k::nat. (65 \<le> k \<and> k \<le> 90) \<or> (192 \<le> k \<and> k \<le> 214) \<or> (216 \<le> k \<and> k \<le> 222))"
  have lc: "lower_char d = (if up (of_char d) then char_of ((of_char d :: nat) + 32) else d)" for d
    by (simp add: lower_char_def up_def Let_def)
  show ?thesis
  proof (cases "up n")
    case False
    then show ?thesis by (simp add: lc n_def)
  next
    case True
    then have "n + 32 < 256" by (auto simp: up_def)
    then have oc: "(of_char (char_of (n + 32)) :: nat) = n + 32" by simp
    have "\<not> up (n + 32)" using True by (auto simp: up_def)
    then have "lower_char (char_of (n + 32)) = char_of (n + 32)"
      by (simp only: lc oc if_False)
    moreover have "lower_char c = char_of (n + 32)" using True by (simp add: lc n_def)
    ultimately show ?thesis by simp
  qed
qed

lemma lower_char_space: "lower_char (CHR '' '') = CHR '' ''"
  by (simp add: lower_char_def)

lemma not_punctuation_space: "\<not> punctuation (CHR '' '')"
  by (simp add: punctuation_def)

lemma isspace_space: "isspace (CHR '' '')"
  by (simp add: isspace_def)

lemma split_on_piece:
  "\<forall>c\<in>set u. \<not> sep c \<Longrightarrow> split_on sep w (u @ r) = split_on sep (rev u @ w) r"
  by (induction u arbitrary: w) auto

lemma split_on_pieces:
  "x \<in> set (split_on sep w s) \<Longrightarrow> \<forall>c\<in>set w. \<not> sep c \<Longrightarrow>
     x \<noteq> [] \<and> (\<forall>c\<in>set x. \<not> sep c) \<and> set x \<subseteq> set w \<union> set s"
proof (induction s arbitrary: w)
  case Nil
  then show ?case by (cases "w = []") auto
next
  case (Cons c cs)
  show ?case
  proof (cases "sep c")
    case False
    then have "x \<in> set (split_on sep (c # w) cs)" using Cons.prems(1) by simp
    moreover have "\<forall>d\<in>set (c # w). \<not> sep d" using False Cons.prems(2) by simp
    ultimately have "x \<noteq> [] \<and> (\<forall>c\<in>set x. \<not> sep c) \<and> set x \<subseteq> set (c # w) \<union> set cs"
      by (rule Cons.IH)
    then show ?thesis by auto
  next
    case True
    have rest: "x \<in> set (split_on sep [] cs) \<Longrightarrow>
        x \<noteq> [] \<and> (\<forall>c\<in>set x. \<not> sep c) \<and> set x \<subseteq> set cs"
      using Cons.IH[of "[]"] by simp
    show ?thesis
    proof (cases "w = []")
      case True
      then have "x \<in> set (split_on sep [] cs)" using \<open>sep c\<close> Cons.prems(1) by simp
      then show ?thesis using rest by auto
    next
      case False
      then have "x = rev w \<or> x \<in> set (split_on sep [] cs)"
        using \<open>sep c\<close> Cons.prems(1) by simp
      then show ?thesis
      proof
        assume "x = rev w"
        then show ?thesis using False Cons.prems(2) by auto
      next
        assume "x \<in> set (split_on sep [] cs)"
        then show ?thesis using rest by auto
      qed
    qed
  qed
qed

lemma split_join:
  "\<forall>x\<in>set ws. x \<noteq> [] \<and> (\<forall>c\<in>set x. \<not> isspace c) \<Longrightarrow> split (join '' '' ws) = ws"
  unfolding split_def
proof (induction ws rule: induct_list012)
  case 1
  then show ?case by simp
next
  case (2 w)
  then show ?case using split_on_piece[of w isspace "[]" "[]"] by simp
next
  case (3 w v ws)
  then show ?case using split_on_piece[of w isspace "[]" "'' '' @ join '' '' (v # ws)"]
    by (simp add: isspace_space)
qed

lemma set_join: "set (join '' '' ws) \<subseteq> insert (CHR '' '') (\<Union>(set ` set ws))"
  by (induction ws rule: induct_list012) auto

lemma preprocess_text_normal_form:
  "\<exists>ws. preprocess_text t = join '' '' ws \<and>
        (\<forall>w\<in>set ws. w \<noteq> [] \<and> (\<forall>c\<in>set w. \<not> isspace c)) \<and>
        (\<forall>c\<in>set (join '' '' ws). lower_char c = c \<and> \<not> punctuation c)"
proof -
  define x where "x = filter (\<lambda>c. \<not> punctuation c) (lower t)"
  define ws where "ws = split x"
  have pt: "preprocess_text t = join '' '' ws"
    by (simp add: preprocess_text_def x_def ws_def)
  have pieces: "\<forall>w\<in>set ws. w \<noteq> [] \<and> (\<forall>c\<in>set w. \<not> isspace c) \<and> set w \<subseteq> set x"
    using split_on_pieces[of _ isspace "[]" x] by (auto simp: ws_def split_def)
  have xchars: "\<forall>c\<in>set x. lower_char c = c \<and> \<not> punctuation c"
    by (auto simp: x_def lower_def lower_char_idem)
  have jchars: "\<forall>c\<in>set (join '' '' ws). lower_char c = c \<and> \<not> punctuation c"
    using set_join[of ws] pieces xchars lower_char_space not_punctuation_space by blast
  show ?thesis using pt pieces jchars by blast
qed

lemma lower_preprocess_text: "lower (preprocess_text t) = preprocess_text t"
proof -
  obtain ws where pt: "preprocess_text t = join '' '' ws"
    and jchars: "\<forall>c\<in>set (join '' '' ws). lower_char c = c \<and> \<not> punctuation c"
    using preprocess_text_normal_form[of t] by blast
  show ?thesis unfolding pt lower_def using jchars by (simp add: map_idI)
qed

text \<open>
  C10. The normalizer is idempotent: normalizing a normalized text changes nothing, for
  every input string.
\<close>

theorem preprocess_text_idempotent:
  "preprocess_text (preprocess_text t) = preprocess_text t"
proof -
  obtain ws where pt: "preprocess_text t = join '' '' ws"
    and pieces: "\<forall>w\<in>set ws. w \<noteq> [] \<and> (\<forall>c\<in>set w. \<not> isspace c)"
    and jchars: "\<forall>c\<in>set (join '' '' ws). lower_char c = c \<and> \<not> punctuation c"
    using preprocess_text_normal_form[of t] by blast
  have l: "lower (join '' '' ws) = join '' '' ws"
    unfolding lower_def using jchars by (simp add: map_idI)
  have f: "filter (\<lambda>c. \<not> punctuation c) (join '' '' ws) = join '' '' ws"
    using jchars by simp
  have s: "split (join '' '' ws) = ws"
    using pieces by (rule split_join)
  show ?thesis
    unfolding pt by (simp add: preprocess_text_def l f s)
qed

theorem preprocess_text_idempotent_witness:
  "preprocess_text (preprocess_text ''  Hello,   World!  '') = ''hello world''"
proof -
  have "preprocess_text ''  Hello,   World!  '' = ''hello world''"
    by code_simp
  then show ?thesis
    using preprocess_text_idempotent[of "''  Hello,   World!  ''"] by simp
qed

section \<open>Degenerate inputs and failures\<close>

text \<open>
  C2 (as amended). If either document yields zero sentences, Tier 2 returns the empty
  result: no plagiarized sentence, \<open>plagiarized_count\<close> 0, no \<open>error\<close> key, and
  \<open>total_sentences\<close> the number of sentences of the first document (0 when that is the
  document without sentences).
\<close>

theorem level2_no_sentences:
  assumes "sent_tokenize text1 = Inr sentences1"
    and "sent_tokenize text2 = Inr sentences2"
    and "sentences1 = [] \<or> sentences2 = []"
  shows "level2_sentence_level sent_tokenize fit csim text1 text2 thr =
           \<lparr>method_name = ''Sentence-Level Detection'',
            error = None,
            explanation = None,
            total_sentences = Some (length sentences1),
            threshold = None,
            plagiarized_sentences = [],
            plagiarized_count = 0\<rparr>"
  using assms by (simp add: level2_sentence_level_def)

lemma plain_sent_tokenize_empty: "plain_sent_tokenize [] = Inr []"
  by (simp add: plain_sent_tokenize_def strip_def)

lemma plain_sent_tokenize_plagiarism:
  "plain_sent_tokenize ''Plagiarism is bad.'' = Inr [''Plagiarism is bad.'']"
  by code_simp

theorem level2_no_sentences_witness:
  "level2_sentence_level plain_sent_tokenize tfidf_fit_transform pairwise_cosine
     [] ''Plagiarism is bad.'' (7 / 10) =
     \<lparr>method_name = ''Sentence-Level Detection'',
      error = None,
      explanation = None,
      total_sentences = Some 0,
      threshold = None,
      plagiarized_sentences = [],
      plagiarized_count = 0\<rparr>"
  using level2_no_sentences[OF plain_sent_tokenize_empty plain_sent_tokenize_plagiarism,
      of tfidf_fit_transform pairwise_cosine "7 / 10"]
  by simp

text \<open>
  The claim as stated fails when only the second document has no sentences: the first
  one has one sentence, and \<open>total_sentences\<close> is 1.
\<close>

theorem level2_no_sentences_counterexample:
  "plain_sent_tokenize [] = Inr [] \<and>
   total_sentences
     (level2_sentence_level plain_sent_tokenize tfidf_fit_transform pairwise_cosine
        ''Plagiarism is bad.'' [] (7 / 10)) = Some 1"
  by (simp add: level2_sentence_level_def plain_sent_tokenize_empty
      plain_sent_tokenize_plagiarism)

text \<open>
  C5. When the embedding model is not available, Tier 3 returns its method name, an
  explanatory \<open>error\<close> and an empty list, and a valid request to the endpoint still gets
  the results of Tier 1 and Tier 2 with status 200; the summary counts 0 semantic
  matches.
\<close>

theorem level3_model_unavailable:
  assumes "request_method req \<noteq> ''OPTIONS''"
    and "get_json req = Inr (JObject kvs)"
    and "map_of kvs ''text1'' = Some (JString a)"
    and "map_of kvs ''text2'' = Some (JString b)"
    and "10 \<le> length (strip a)"
    and "10 \<le> length (strip b)"
  shows "level3_semantic_similarity None sent_tokenize csim text1 text2 thr =
           \<lparr>method_name = ''Semantic Similarity (Transformer)'',
            error = Some ''Sentence transformer model not available'',
            explanation = None,
            total_sentences = None,
            threshold = None,
            semantic_plagiarized_sentences = [],
            semantic_plagiarized_count = None\<rparr> \<and>
         check_plagiarism None sent_tokenize fit csim req =
           (200,
            Report (level1_tfidf_similarity fit csim (strip a) (strip b))
              (level2_sentence_level sent_tokenize fit csim (strip a) (strip b) (7 / 10))
              (level3_semantic_similarity None sent_tokenize csim (strip a) (strip b) (3 / 4))
              \<lparr>overall_similarity =
                 similarity_percentage (level1_tfidf_similarity fit csim (strip a) (strip b)),
               total_plagiarized_sentences =
                 plagiarized_count
                   (level2_sentence_level sent_tokenize fit csim (strip a) (strip b) (7 / 10)),
               summary_semantic_plagiarized_sentences = 0,
               text1_length = length (strip a),
               text2_length = length (strip b)\<rparr>)"
proof -
  have kvs: "kvs \<noteq> []" using assms(3) by auto
  have a: "strip a \<noteq> []" and b: "strip b \<noteq> []" using assms(5,6) by auto
  have l3: "semantic_plagiarized_count
      (level3_semantic_similarity None sent_tokenize csim (strip a) (strip b) t) = None" for t
    by (simp add: level3_semantic_similarity_def)
  have "check_plagiarism None sent_tokenize fit csim req =
      (200,
       Report (level1_tfidf_similarity fit csim (strip a) (strip b))
         (level2_sentence_level sent_tokenize fit csim (strip a) (strip b) (7 / 10))
         (level3_semantic_similarity None sent_tokenize csim (strip a) (strip b) (3 / 4))
         \<lparr>overall_similarity =
            similarity_percentage (level1_tfidf_similarity fit csim (strip a) (strip b)),
          total_plagiarized_sentences =
            plagiarized_count
              (level2_sentence_level sent_tokenize fit csim (strip a) (strip b) (7 / 10)),
          summary_semantic_plagiarized_sentences = 0,
          text1_length = length (strip a),
          text2_length = length (strip b)\<rparr>)"
    using assms kvs a b by (simp add: check_plagiarism_def Let_def l3 not_less)
  then show ?thesis by (simp add: level3_semantic_similarity_def)
qed

lemma strip_plagiarism: "strip ''Plagiarism is bad.'' = ''Plagiarism is bad.''"
  by code_simp

theorem level3_model_unavailable_witness:
  "error (level3_semantic_similarity None plain_sent_tokenize pairwise_cosine
      ''Plagiarism is bad.'' ''Plagiarism is bad.'' (3 / 4)) =
     Some ''Sentence transformer model not available'' \<and>
   check_plagiarism None plain_sent_tokenize tfidf_fit_transform pairwise_cosine
     \<lparr>request_method = ''POST'',
      get_json = Inr (JObject [(''text1'', JString ''Plagiarism is bad.''),
                               (''text2'', JString ''  Plagiarism is bad. '')])\<rparr> =
     (200,
      Report
        (level1_tfidf_similarity tfidf_fit_transform pairwise_cosine
           ''Plagiarism is bad.'' ''Plagiarism is bad.'')
        (level2_sentence_level plain_sent_tokenize tfidf_fit_transform pairwise_cosine
           ''Plagiarism is bad.'' ''Plagiarism is bad.'' (7 / 10))
        (level3_semantic_similarity None plain_sent_tokenize pairwise_cosine
           ''Plagiarism is bad.'' ''Plagiarism is bad.'' (3 / 4))
        \<lparr>overall_similarity =
           similarity_percentage
             (level1_tfidf_similarity tfidf_fit_transform pairwise_cosine
                ''Plagiarism is bad.'' ''Plagiarism is bad.''),
         total_plagiarized_sentences =
           plagiarized_count
             (level2_sentence_level plain_sent_tokenize tfidf_fit_transform pairwise_cosine
                ''Plagiarism is bad.'' ''Plagiarism is bad.'' (7 / 10)),
         summary_semantic_plagiarized_sentences = 0,
         text1_length = 18,
         text2_length = 18\<rparr>)"
proof -
  have s2: "strip ''  Plagiarism is bad. '' = ''Plagiarism is bad.''"
    by code_simp
  show ?thesis
    using level3_model_unavailable[where
        req = "\<lparr>request_method = ''POST'',
                get_json = Inr (JObject [(''text1'', JString ''Plagiarism is bad.''),
                                         (''text2'', JString ''  Plagiarism is bad. '')])\<rparr>"
        and kvs = "[(''text1'', JString ''Plagiarism is bad.''),
                    (''text2'', JString ''  Plagiarism is bad. '')]"
        and a = "''Plagiarism is bad.''" and b = "''  Plagiarism is bad. ''"
        and sent_tokenize = plain_sent_tokenize and csim = pairwise_cosine
        and fit = tfidf_fit_transform
        and ?text1.0 = "''Plagiarism is bad.''" and ?text2.0 = "''Plagiarism is bad.''"
        and thr = "3 / 4"]
    by (simp add: strip_plagiarism s2)
qed

section \<open>The alignment loops\<close>

lemma level2_best_match_spec:
  "level2_best_match fit csim (preprocess_text a) bs (m0, s0) = (m, s) \<Longrightarrow>
     m0 \<le> m \<and>
     (\<forall>b\<in>set bs. \<forall>w. candidate_score fit csim a b = Some w \<longrightarrow> w \<le> m) \<and>
     ((m = m0 \<and> s = s0) \<or>
      (m0 < m \<and>
       (\<exists>pre post. bs = pre @ s # post \<and> candidate_score fit csim a s = Some m \<and>
          (\<forall>b\<in>set pre. \<forall>w. candidate_score fit csim a b = Some w \<longrightarrow> w < m))))"
proof (induction bs arbitrary: m0 s0)
  case Nil
  then show ?case by simp
next
  case (Cons x xs)
  let ?P = "\<lambda>bs m0 s0.
     m0 \<le> m \<and>
     (\<forall>b\<in>set bs. \<forall>w. candidate_score fit csim a b = Some w \<longrightarrow> w \<le> m) \<and>
     ((m = m0 \<and> s = s0) \<or>
      (m0 < m \<and>
       (\<exists>pre post. bs = pre @ s # post \<and> candidate_score fit csim a s = Some m \<and>
          (\<forall>b\<in>set pre. \<forall>w. candidate_score fit csim a b = Some w \<longrightarrow> w < m))))"
  consider
    (skip) "candidate_score fit csim a x = None"
      "level2_best_match fit csim (preprocess_text a) xs (m0, s0) = (m, s)"
  | (lower) v where "candidate_score fit csim a x = Some v" "v \<le> m0"
      "level2_best_match fit csim (preprocess_text a) xs (m0, s0) = (m, s)"
  | (higher) v where "candidate_score fit csim a x = Some v" "m0 < v"
      "level2_best_match fit csim (preprocess_text a) xs (v, x) = (m, s)"
    using Cons.prems
    by (auto simp: candidate_score_def not_less split: if_splits sum.splits)
  then show ?case
  proof cases
    case skip
    from Cons.IH[OF skip(2)] have ih: "?P xs m0 s0" .
    show ?thesis
    proof (cases "m = m0 \<and> s = s0")
      case True
      then show ?thesis using ih skip(1) by auto
    next
      case False
      then obtain pre post where d: "m0 < m" "xs = pre @ s # post"
        "candidate_score fit csim a s = Some m"
        "\<forall>b\<in>set pre. \<forall>w. candidate_score fit csim a b = Some w \<longrightarrow> w < m"
        using ih by blast
      have "x # xs = (x # pre) @ s # post" using d(2) by simp
      moreover have "\<forall>b\<in>set (x # pre). \<forall>w. candidate_score fit csim a b = Some w \<longrightarrow> w < m"
        using d(4) skip(1) by simp
      ultimately have "\<exists>pre post. x # xs = pre @ s # post \<and>
          candidate_score fit csim a s = Some m \<and>
          (\<forall>b\<in>set pre. \<forall>w. candidate_score fit csim a b = Some w \<longrightarrow> w < m)"
        using d(3) by blast
      then show ?thesis using ih d(1) skip(1) by simp
    qed
  next
    case lower
    from Cons.IH[OF lower(3)] have ih: "?P xs m0 s0" .
    show ?thesis
    proof (cases "m = m0 \<and> s = s0")
      case True
      then show ?thesis using ih lower(1,2) by auto
    next
      case False
      then obtain pre post where d: "m0 < m" "xs = pre @ s # post"
        "candidate_score fit csim a s = Some m"
        "\<forall>b\<in>set pre. \<forall>w. candidate_score fit csim a b = Some w \<longrightarrow> w < m"
        using ih by blast
      have "x # xs = (x # pre) @ s # post" using d(2) by simp
      moreover have "\<forall>b\<in>set (x # pre). \<forall>w. candidate_score fit csim a b = Some w \<longrightarrow> w < m"
        using d(1,4) lower(1,2) by auto
      ultimately have "\<exists>pre post. x # xs = pre @ s # post \<and>
          candidate_score fit csim a s = Some m \<and>
          (\<forall>b\<in>set pre. \<forall>w. candidate_score fit csim a b = Some w \<longrightarrow> w < m)"
        using d(3) by blast
      moreover have "\<forall>b\<in>set (x # xs). \<forall>w. candidate_score fit csim a b = Some w \<longrightarrow> w \<le> m"
        using ih lower(1,2) by auto
      ultimately show ?thesis using ih d(1) by simp
    qed
  next
    case higher
    from Cons.IH[OF higher(3)] have ih: "?P xs v x" .
    have all: "\<forall>b\<in>set (x # xs). \<forall>w. candidate_score fit csim a b = Some w \<longrightarrow> w \<le> m"
      using ih higher(1) by auto
    have lt: "m0 < m" using ih higher(2) by auto
    show ?thesis
    proof (cases "m = v \<and> s = x")
      case True
      have "x # xs = [] @ s # xs" using True by simp
      moreover have "candidate_score fit csim a s = Some m" using True higher(1) by simp
      ultimately have "\<exists>pre post. x # xs = pre @ s # post \<and>
          candidate_score fit csim a s = Some m \<and>
          (\<forall>b\<in>set pre. \<forall>w. candidate_score fit csim a b = Some w \<longrightarrow> w < m)"
        by (metis empty_iff empty_set)
      then show ?thesis using all lt by simp
    next
      case False
      then obtain pre post where d: "v < m" "xs = pre @ s # post"
        "candidate_score fit csim a s = Some m"
        "\<forall>b\<in>set pre. \<forall>w. candidate_score fit csim a b = Some w \<longrightarrow> w < m"
        using ih by blast
      have "x # xs = (x # pre) @ s # post" using d(2) by simp
      moreover have "\<forall>b\<in>set (x # pre). \<forall>w. candidate_score fit csim a b = Some w \<longrightarrow> w < m"
        using d(1,4) higher(1) by auto
      ultimately have "\<exists>pre post. x # xs = pre @ s # post \<and>
          candidate_score fit csim a s = Some m \<and>
          (\<forall>b\<in>set pre. \<forall>w. candidate_score fit csim a b = Some w \<longrightarrow> w < m)"
        using d(3) by blast
      then show ?thesis using all lt by simp
    qed
  qed
qed

lemma level2_loop_spec:
  "m \<in> set (level2_loop fit csim thr sentences2 idx sentences1) \<Longrightarrow>
     \<exists>i v. i < length sentences1 \<and> position m = idx + i + 1 \<and> sentence m = sentences1 ! i \<and>
        10 \<le> length (strip (sentences1 ! i)) \<and>
        level2_best_match fit csim (preprocess_text (sentences1 ! i)) sentences2 (0, []) =
          (v, matching_sentence m) \<and>
        thr \<le> v \<and> similarity m = round2 (v * 100)"
proof (induction sentences1 arbitrary: idx)
  case Nil
  then show ?case by simp
next
  case (Cons sent1 rest)
  let ?Q = "\<lambda>ss idx i v. i < length ss \<and> position m = idx + i + 1 \<and> sentence m = ss ! i \<and>
        10 \<le> length (strip (ss ! i)) \<and>
        level2_best_match fit csim (preprocess_text (ss ! i)) sentences2 (0, []) =
          (v, matching_sentence m) \<and>
        thr \<le> v \<and> similarity m = round2 (v * 100)"
  obtain v b where best:
    "level2_best_match fit csim (preprocess_text sent1) sentences2 (0, []) = (v, b)"
    by (cases "level2_best_match fit csim (preprocess_text sent1) sentences2 (0, [])")
  consider
    (here) "10 \<le> length (strip sent1)" "thr \<le> v"
      "m = \<lparr>sentence = sent1, matching_sentence = b, position = idx + 1,
             similarity = round2 (v * 100)\<rparr>"
  | (later) "m \<in> set (level2_loop fit csim thr sentences2 (Suc idx) rest)"
    using Cons.prems best by (auto split: if_splits)
  then show ?case
  proof cases
    case here
    then have "?Q (sent1 # rest) idx 0 v" using best by simp
    then show ?thesis by blast
  next
    case later
    from Cons.IH[OF later] obtain i v' where "?Q rest (Suc idx) i v'" by blast
    then have "?Q (sent1 # rest) idx (Suc i) v'" by simp
    then show ?thesis by blast
  qed
qed

lemma level2_loop_positions:
  "sorted_wrt (<) (map position (level2_loop fit csim thr sentences2 idx sentences1)) \<and>
   (\<forall>m\<in>set (level2_loop fit csim thr sentences2 idx sentences1).
      idx < position m \<and> position m \<le> idx + length sentences1)"
proof (induction sentences1 arbitrary: idx)
  case Nil
  then show ?case by simp
next
  case (Cons sent1 rest)
  have ih: "sorted_wrt (<) (map position (level2_loop fit csim thr sentences2 (Suc idx) rest))"
    "\<forall>m\<in>set (level2_loop fit csim thr sentences2 (Suc idx) rest).
       Suc idx < position m \<and> position m \<le> Suc idx + length rest"
    using Cons.IH[of "Suc idx"] by blast+
  obtain v b where best:
    "level2_best_match fit csim (preprocess_text sent1) sentences2 (0, []) = (v, b)"
    by (cases "level2_best_match fit csim (preprocess_text sent1) sentences2 (0, [])")
  show ?case
  proof (cases "10 \<le> length (strip sent1) \<and> thr \<le> v")
    case True
    then have eq: "level2_loop fit csim thr sentences2 idx (sent1 # rest) =
        \<lparr>sentence = sent1, matching_sentence = b, position = idx + 1,
          similarity = round2 (v * 100)\<rparr> # level2_loop fit csim thr sentences2 (Suc idx) rest"
      using best by simp
    show ?thesis unfolding eq using ih by auto
  next
    case False
    then have eq: "level2_loop fit csim thr sentences2 idx (sent1 # rest) =
        level2_loop fit csim thr sentences2 (Suc idx) rest"
      using best by auto
    show ?thesis unfolding eq using ih by auto
  qed
qed



lemma level3_loop_spec:
  "level3_loop encode csim thr valid embeddings2 idx sentences1 = Inr ms \<Longrightarrow> m \<in> set ms \<Longrightarrow>
     \<exists>i j sims. i < length sentences1 \<and> position m = idx + i + 1 \<and> sentence m = sentences1 ! i \<and>
        10 \<le> length (strip (sentences1 ! i)) \<and>
        level3_similarities encode csim (sentences1 ! i) embeddings2 = Inr sims \<and>
        argmax sims = Inr j \<and> j < length valid \<and> matching_sentence m = valid ! j \<and>
        thr \<le> sims ! j \<and> semantic_similarity m = round2 (sims ! j * 100)"
proof (induction sentences1 arbitrary: idx ms)
  case Nil
  then show ?case by simp
next
  case (Cons sent1 rest)
  let ?Q = "\<lambda>ss idx i j sims. i < length ss \<and> position m = idx + i + 1 \<and> sentence m = ss ! i \<and>
        10 \<le> length (strip (ss ! i)) \<and>
        level3_similarities encode csim (ss ! i) embeddings2 = Inr sims \<and>
        argmax sims = Inr j \<and> j < length valid \<and> matching_sentence m = valid ! j \<and>
        thr \<le> sims ! j \<and> semantic_similarity m = round2 (sims ! j * 100)"
  consider
    (here) sims j where "10 \<le> length (strip sent1)"
      "level3_similarities encode csim sent1 embeddings2 = Inr sims"
      "argmax sims = Inr j" "thr \<le> sims ! j" "j < length valid"
      "m = \<lparr>sentence = sent1, matching_sentence = valid ! j, position = idx + 1,
             semantic_similarity = round2 (sims ! j * 100), type_tag = ''semantic''\<rparr>"
  | (later) ms' where "level3_loop encode csim thr valid embeddings2 (Suc idx) rest = Inr ms'"
      "m \<in> set ms'"
    using Cons.prems
    by (auto simp: Let_def item_def split: if_splits sum.splits)
  then show ?case
  proof cases
    case here
    then have "?Q (sent1 # rest) idx 0 j sims" by simp
    then show ?thesis by blast
  next
    case later
    from Cons.IH[OF later] obtain i j sims where "?Q rest (Suc idx) i j sims" by blast
    then have "?Q (sent1 # rest) idx (Suc i) j sims" by simp
    then show ?thesis by blast
  qed
qed

lemma level3_loop_positions:
  "level3_loop encode csim thr valid embeddings2 idx sentences1 = Inr ms \<Longrightarrow>
   sorted_wrt (<) (map position ms) \<and>
   (\<forall>m\<in>set ms. idx < position m \<and> position m \<le> idx + length sentences1)"
proof (induction sentences1 arbitrary: idx ms)
  case Nil
  then show ?case by simp
next
  case (Cons sent1 rest)
  consider
    (here) later where
      "level3_loop encode csim thr valid embeddings2 (Suc idx) rest = Inr later"
      "\<exists>b v. ms = \<lparr>sentence = sent1, matching_sentence = b, position = idx + 1,
             semantic_similarity = v, type_tag = ''semantic''\<rparr> # later"
  | (skip) "level3_loop encode csim thr valid embeddings2 (Suc idx) rest = Inr ms"
    using Cons.prems
    by (auto simp: Let_def split: if_splits sum.splits)
  then show ?case
  proof cases
    case here
    from Cons.IH[OF here(1)] have ih: "sorted_wrt (<) (map position later)"
      "\<forall>m\<in>set later. Suc idx < position m \<and> position m \<le> Suc idx + length rest"
      by blast+
    from here(2) obtain b v where ms: "ms = \<lparr>sentence = sent1, matching_sentence = b,
        position = idx + 1, semantic_similarity = v, type_tag = ''semantic''\<rparr> # later"
      by blast
    show ?thesis unfolding ms using ih by auto
  next
    case skip
    from Cons.IH[OF skip] show ?thesis by auto
  qed
qed

lemma round_half_even_near:
  "of_int (round_half_even x) - 1 / 2 \<le> x \<and> x \<le> of_int (round_half_even x) + 1 / 2"
proof -
  define f where "f = \<lfloor>x\<rfloor>"
  have fl: "of_int f \<le> x" "x < of_int f + 1" unfolding f_def by linarith+
  have r: "round_half_even x =
      (if x - of_int f < 1 / 2 then f else if 1 / 2 < x - of_int f then f + 1
       else if even f then f else f + 1)"
    by (simp add: round_half_even_def Let_def f_def)
  consider "x - of_int f < 1 / 2" | "1 / 2 < x - of_int f" | "x - of_int f = 1 / 2"
    by linarith
  then show ?thesis
  proof cases
    case 1
    then have "round_half_even x = f" using r by simp
    then show ?thesis using 1 fl by simp
  next
    case 2
    then have "round_half_even x = f + 1" using r by simp
    then show ?thesis using 2 fl by simp
  next
    case 3
    then have "round_half_even x = f \<or> round_half_even x = f + 1" using r by simp
    then show ?thesis using 3 by auto
  qed
qed

lemma round_half_even_mono:
  assumes "x \<le> y"
  shows "round_half_even x \<le> round_half_even y"
proof (rule ccontr)
  assume "\<not> round_half_even x \<le> round_half_even y"
  then have "round_half_even y + 1 \<le> round_half_even x" by simp
  then have "(of_int (round_half_even y) :: real) + 1 \<le> of_int (round_half_even x)"
    by (metis of_int_1 of_int_add of_int_le_iff)
  moreover have "of_int (round_half_even x) - 1 / 2 \<le> x"
    and "y \<le> of_int (round_half_even y) + 1 / 2"
    using round_half_even_near by blast+
  ultimately have "x = y" using assms by linarith
  then show False using \<open>\<not> round_half_even x \<le> round_half_even y\<close> by simp
qed

lemma round_half_even_of_int: "round_half_even (of_int n) = n"
  by (simp add: round_half_even_def)

lemma round2_mono: "x \<le> y \<Longrightarrow> round2 x \<le> round2 y"
  unfolding round2_def
  by (intro divide_right_mono) (simp_all add: round_half_even_mono)

lemma round2_of_int: "round2 (of_int n) = of_int n"
proof -
  have "of_int n * (100::real) = of_int (n * 100)" by simp
  then have "round_half_even (of_int n * 100) = n * 100"
    by (simp only: round_half_even_of_int)
  then show ?thesis by (simp add: round2_def)
qed

lemma round2_70: "round2 70 = 70"
  using round2_of_int[of 70] by simp

lemma round2_75: "round2 75 = 75"
  using round2_of_int[of 75] by simp

lemma round2_100: "round2 100 = 100"
  using round2_of_int[of 100] by simp

lemma round2_0: "round2 0 = 0"
  using round2_of_int[of 0] by simp

lemma round2_threshold_70: "7 / 10 \<le> v \<Longrightarrow> 70 \<le> round2 (v * 100)"
  using round2_mono[of 70 "v * 100"] by (simp add: round2_70)

lemma round2_threshold_75: "3 / 4 \<le> v \<Longrightarrow> 75 \<le> round2 (v * 100)"
  using round2_mono[of 75 "v * 100"] by (simp add: round2_75)

section \<open>The reference vectorizer\<close>

lemma sum_squares_nonneg: "0 \<le> sum_list (map (\<lambda>x. x * x) (v :: real list))"
  by (induction v) auto

lemma sum_squares_eq_0: "sum_list (map (\<lambda>x. x * x) (v :: real list)) = 0 \<longleftrightarrow> (\<forall>x\<in>set v. x = 0)"
proof (induction v)
  case Nil
  then show ?case by simp
next
  case (Cons a v)
  have "a * a + sum_list (map (\<lambda>x. x * x) v) = 0 \<longleftrightarrow> a * a = 0 \<and> sum_list (map (\<lambda>x. x * x) v) = 0"
    using sum_squares_nonneg[of v] by (intro add_nonneg_eq_0_iff) simp_all
  then show ?case using Cons.IH by simp
qed

lemma l2_norm_eq_0: "l2_norm v = 0 \<longleftrightarrow> (\<forall>x\<in>set v. x = 0)"
  by (simp add: l2_norm_def sum_squares_eq_0)

lemma l2_norm_nonneg: "0 \<le> l2_norm v"
  by (simp add: l2_norm_def sum_squares_nonneg)

lemma dot_self: "dot v v = l2_norm v * l2_norm v"
proof -
  have "dot v v = sum_list (map (\<lambda>x. x * x) v)"
    by (simp add: dot_def zip_same_conv_map comp_def)
  then show ?thesis by (simp add: l2_norm_def sum_squares_nonneg)
qed

lemma dot_commute: "dot u v = dot v u"
proof -
  have "map (\<lambda>(x, y). x * y) (zip u v) = map (\<lambda>(x, y). x * y) (zip v u)"
  proof (induction u arbitrary: v)
    case Nil
    then show ?case by simp
  next
    case (Cons a u)
    then show ?case by (cases v) (simp_all add: mult.commute)
  qed
  then show ?thesis by (simp add: dot_def)
qed

lemma length_normalize: "length (l2_normalize v) = length v"
  by (simp add: l2_normalize_def)

lemma l2_norm_normalize:
  assumes "l2_norm v \<noteq> 0"
  shows "l2_norm (l2_normalize v) = 1"
proof -
  define n where "n = l2_norm v"
  have n: "0 < n" using assms l2_norm_nonneg[of v] by (simp add: n_def)
  have sq: "sum_list (map (\<lambda>x. x * x) v) = n * n"
    using dot_self[of v] by (simp add: n_def dot_def zip_same_conv_map comp_def)
  have "sum_list (map (\<lambda>x. x * x) (map (\<lambda>x. x / n) v)) =
      sum_list (map (\<lambda>x. (x * x) * (1 / (n * n))) v)"
    by (simp add: comp_def)
  also have "\<dots> = sum_list (map (\<lambda>x. x * x) v) * (1 / (n * n))"
    by (rule sum_list_mult_const)
  also have "\<dots> = 1" using n by (simp add: sq)
  finally have "sum_list (map (\<lambda>x. x * x) (map (\<lambda>x. x / n) v)) = 1" .
  then have "l2_norm (map (\<lambda>x. x / n) v) = 1" by (simp add: l2_norm_def)
  then show ?thesis using assms by (simp add: l2_normalize_def n_def)
qed

lemma pairwise_cosine_self:
  assumes "l2_norm v \<noteq> 0"
  shows "pairwise_cosine [l2_normalize v] [l2_normalize v] = Inr [[1]]"
proof -
  have 1: "l2_norm (l2_normalize v) = 1" using assms by (rule l2_norm_normalize)
  then have "l2_normalize (l2_normalize v) = l2_normalize v" by (simp add: l2_normalize_def[of "l2_normalize v"])
  then have "dot (l2_normalize (l2_normalize v)) (l2_normalize (l2_normalize v)) = 1"
    using 1 by (simp add: dot_self)
  then show ?thesis by (simp add: pairwise_cosine_def)
qed

lemma idf_pos: "0 < idf docs t"
proof -
  have "length (filter (\<lambda>d. t \<in> set d) docs) \<le> length docs" by simp
  then have "1 \<le> (1 + real (length docs)) / (1 + real (length (filter (\<lambda>d. t \<in> set d) docs)))"
    by (simp add: le_divide_eq)
  then have "0 \<le> ln ((1 + real (length docs)) / (1 + real (length (filter (\<lambda>d. t \<in> set d) docs))))"
    by (rule ln_ge_zero)
  then show ?thesis unfolding idf_def by linarith
qed

lemma tfidf_row_nonzero:
  assumes "t \<in> set d" and "t \<in> set vocabulary"
  shows "l2_norm (map (\<lambda>t. real (count_list d t) * idf docs t) vocabulary) \<noteq> 0"
proof -
  have "0 < count_list d t" using assms(1) by (metis count_list_0_iff gr0I)
  then have "real (count_list d t) * idf docs t \<noteq> 0" using idf_pos[of docs t] by simp
  moreover have "real (count_list d t) * idf docs t \<in>
      set (map (\<lambda>t. real (count_list d t) * idf docs t) vocabulary)"
    using assms(2) by auto
  ultimately show ?thesis unfolding l2_norm_eq_0 by blast
qed

lemma tfidf_fit_transform_pair:
  "tfidf_fit_transform [a, b] =
     (if sorted_list_of_set (set (tokens (lower a)) \<union> set (tokens (lower b))) = []
      then Inl (Exception ''empty vocabulary; perhaps the documents only contain stop words'')
      else Inr [l2_normalize
                  (map (\<lambda>t. real (count_list (tokens (lower a)) t) *
                            idf [tokens (lower a), tokens (lower b)] t)
                     (sorted_list_of_set (set (tokens (lower a)) \<union> set (tokens (lower b))))),
                l2_normalize
                  (map (\<lambda>t. real (count_list (tokens (lower b)) t) *
                            idf [tokens (lower a), tokens (lower b)] t)
                     (sorted_list_of_set (set (tokens (lower a)) \<union> set (tokens (lower b)))))])"
  by (simp add: tfidf_fit_transform_def Let_def)

lemma tfidf_pair_similarity_self:
  assumes "tokens (lower d) \<noteq> []"
  shows "tfidf_pair_similarity tfidf_fit_transform pairwise_cosine d d = Inr 1"
proof -
  define tk where "tk = tokens (lower d)"
  define vocabulary where "vocabulary = sorted_list_of_set (set tk \<union> set tk)"
  define w where "w = map (\<lambda>t. real (count_list tk t) * idf [tk, tk] t) vocabulary"
  obtain t where t: "t \<in> set tk" using assms by (cases tk) (auto simp: tk_def)
  have sv: "set vocabulary = set tk" by (simp add: vocabulary_def)
  then have ne: "vocabulary \<noteq> []" using t by auto
  have fit: "tfidf_fit_transform [d, d] = Inr [l2_normalize w, l2_normalize w]"
    using ne unfolding tfidf_fit_transform_pair tk_def[symmetric] vocabulary_def[symmetric]
      w_def[symmetric] by simp
  have "l2_norm w \<noteq> 0" unfolding w_def using t sv by (intro tfidf_row_nonzero[of t]) auto
  then have "pairwise_cosine [l2_normalize w] [l2_normalize w] = Inr [[1]]"
    by (rule pairwise_cosine_self)
  then show ?thesis by (simp add: tfidf_pair_similarity_def fit item_def)
qed

lemma tfidf_pair_similarity_commute:
  "tfidf_pair_similarity tfidf_fit_transform pairwise_cosine a b =
   tfidf_pair_similarity tfidf_fit_transform pairwise_cosine b a"
proof -
  define ta where "ta = tokens (lower a)"
  define tb where "tb = tokens (lower b)"
  define vocabulary where "vocabulary = sorted_list_of_set (set ta \<union> set tb)"
  have v': "sorted_list_of_set (set tb \<union> set ta) = vocabulary"
    by (simp add: vocabulary_def Un_commute)
  have idf': "idf [tb, ta] = idf [ta, tb]"
    by (rule ext) (simp add: idf_def)
  define wa where "wa = map (\<lambda>t. real (count_list ta t) * idf [ta, tb] t) vocabulary"
  define wb where "wb = map (\<lambda>t. real (count_list tb t) * idf [ta, tb] t) vocabulary"
  have len: "length wa = length wb" by (simp add: wa_def wb_def)
  have ab: "tfidf_fit_transform [a, b] =
      (if vocabulary = []
       then Inl (Exception ''empty vocabulary; perhaps the documents only contain stop words'')
       else Inr [l2_normalize wa, l2_normalize wb])"
    unfolding tfidf_fit_transform_pair ta_def[symmetric] tb_def[symmetric]
      vocabulary_def[symmetric] wa_def[symmetric] wb_def[symmetric] ..
  have ba: "tfidf_fit_transform [b, a] =
      (if vocabulary = []
       then Inl (Exception ''empty vocabulary; perhaps the documents only contain stop words'')
       else Inr [l2_normalize wb, l2_normalize wa])"
    unfolding tfidf_fit_transform_pair ta_def[symmetric] tb_def[symmetric]
      v' idf' wa_def[symmetric] wb_def[symmetric] ..
  have "pairwise_cosine [l2_normalize wa] [l2_normalize wb] =
      Inr [[dot (l2_normalize (l2_normalize wa)) (l2_normalize (l2_normalize wb))]]"
    by (simp add: pairwise_cosine_def length_normalize len)
  moreover have "pairwise_cosine [l2_normalize wb] [l2_normalize wa] =
      Inr [[dot (l2_normalize (l2_normalize wb)) (l2_normalize (l2_normalize wa))]]"
    by (simp add: pairwise_cosine_def length_normalize len)
  ultimately show ?thesis
    by (simp add: tfidf_pair_similarity_def ab ba item_def dot_commute)
qed

section \<open>The matches of Tier 2 and Tier 3\<close>

lemma level2_result_cases:
  "plagiarized_sentences (level2_sentence_level tok fit csim text1 text2 thr) = [] \<or>
   (\<exists>sentences1 sentences2. tok text1 = Inr sentences1 \<and> tok text2 = Inr sentences2 \<and>
      plagiarized_sentences (level2_sentence_level tok fit csim text1 text2 thr) =
        level2_loop fit csim thr sentences2 0 sentences1 \<and>
      total_sentences (level2_sentence_level tok fit csim text1 text2 thr) =
        Some (length sentences1))"
  by (simp add: level2_sentence_level_def level2_error_def Let_def split: sum.splits)

lemma level3_result_cases:
  "semantic_plagiarized_sentences (level3_semantic_similarity sm tok csim text1 text2 thr) = [] \<or>
   (\<exists>encode sentences1 sentences2 embeddings2.
      sm = Some encode \<and> tok text1 = Inr sentences1 \<and> tok text2 = Inr sentences2 \<and>
      encode (filter (\<lambda>s. 10 \<le> length (strip s)) sentences2) = Inr embeddings2 \<and>
      level3_loop encode csim thr (filter (\<lambda>s. 10 \<le> length (strip s)) sentences2)
        embeddings2 0 sentences1 =
        Inr (semantic_plagiarized_sentences
               (level3_semantic_similarity sm tok csim text1 text2 thr)) \<and>
      total_sentences (level3_semantic_similarity sm tok csim text1 text2 thr) =
        Some (length sentences1))"
  by (simp add: level3_semantic_similarity_def level3_error_def level3_empty_def Let_def
      split: option.splits sum.splits)

lemma level2_match:
  assumes "m \<in> set (plagiarized_sentences (level2_sentence_level tok fit csim text1 text2 thr))"
  shows "\<exists>sentences1 sentences2 i v.
      tok text1 = Inr sentences1 \<and> tok text2 = Inr sentences2 \<and>
      total_sentences (level2_sentence_level tok fit csim text1 text2 thr) =
        Some (length sentences1) \<and>
      i < length sentences1 \<and> position m = i + 1 \<and> sentence m = sentences1 ! i \<and>
      10 \<le> length (strip (sentence m)) \<and>
      level2_best_match fit csim (preprocess_text (sentence m)) sentences2 (0, []) =
        (v, matching_sentence m) \<and>
      thr \<le> v \<and> similarity m = round2 (v * 100)"
proof -
  from assms level2_result_cases[of tok fit csim text1 text2 thr]
  obtain sentences1 sentences2 where s: "tok text1 = Inr sentences1" "tok text2 = Inr sentences2"
    "total_sentences (level2_sentence_level tok fit csim text1 text2 thr) =
      Some (length sentences1)"
    and m: "m \<in> set (level2_loop fit csim thr sentences2 0 sentences1)"
    by auto
  from level2_loop_spec[OF m] obtain i v where
    "i < length sentences1" "position m = i + 1" "sentence m = sentences1 ! i"
    "10 \<le> length (strip (sentences1 ! i))"
    "level2_best_match fit csim (preprocess_text (sentences1 ! i)) sentences2 (0, []) =
      (v, matching_sentence m)"
    "thr \<le> v" "similarity m = round2 (v * 100)"
    by auto
  then show ?thesis using s by auto
qed

lemma level3_match:
  assumes "m \<in> set (semantic_plagiarized_sentences
      (level3_semantic_similarity sm tok csim text1 text2 thr))"
  shows "\<exists>encode sentences1 sentences2 embeddings2 i j sims.
      sm = Some encode \<and> tok text1 = Inr sentences1 \<and> tok text2 = Inr sentences2 \<and>
      encode (filter (\<lambda>s. 10 \<le> length (strip s)) sentences2) = Inr embeddings2 \<and>
      total_sentences (level3_semantic_similarity sm tok csim text1 text2 thr) =
        Some (length sentences1) \<and>
      i < length sentences1 \<and> position m = i + 1 \<and> sentence m = sentences1 ! i \<and>
      10 \<le> length (strip (sentence m)) \<and>
      level3_similarities encode csim (sentence m) embeddings2 = Inr sims \<and>
      argmax sims = Inr j \<and>
      j < length (filter (\<lambda>s. 10 \<le> length (strip s)) sentences2) \<and>
      matching_sentence m = filter (\<lambda>s. 10 \<le> length (strip s)) sentences2 ! j \<and>
      thr \<le> sims ! j \<and> semantic_similarity m = round2 (sims ! j * 100)"
proof -
  from assms level3_result_cases[of sm tok csim text1 text2 thr]
  obtain encode sentences1 sentences2 embeddings2 where s: "sm = Some encode"
    "tok text1 = Inr sentences1" "tok text2 = Inr sentences2"
    "encode (filter (\<lambda>s. 10 \<le> length (strip s)) sentences2) = Inr embeddings2"
    "total_sentences (level3_semantic_similarity sm tok csim text1 text2 thr) =
      Some (length sentences1)"
    and l: "level3_loop encode csim thr (filter (\<lambda>s. 10 \<le> length (strip s)) sentences2)
        embeddings2 0 sentences1 =
        Inr (semantic_plagiarized_sentences
               (level3_semantic_similarity sm tok csim text1 text2 thr))"
    by auto
  from level3_loop_spec[OF l assms] obtain i j sims where
    "i < length sentences1" "position m = i + 1" "sentence m = sentences1 ! i"
    "10 \<le> length (strip (sentences1 ! i))"
    "level3_similarities encode csim (sentences1 ! i) embeddings2 = Inr sims"
    "argmax sims = Inr j" "j < length (filter (\<lambda>s. 10 \<le> length (strip s)) sentences2)"
    "matching_sentence m = filter (\<lambda>s. 10 \<le> length (strip s)) sentences2 ! j"
    "thr \<le> sims ! j" "semantic_similarity m = round2 (sims ! j * 100)"
    by auto
  then show ?thesis using s by auto
qed

text \<open>
  C8. In the lists of Tier 2 and of Tier 3 the positions are 1-based and strictly
  increasing, each is the place of the match's sentence among the sentences of the first
  document, and none exceeds \<open>total_sentences\<close> of the same result.
\<close>

theorem match_positions:
  "sorted_wrt (<)
     (map position (plagiarized_sentences (level2_sentence_level tok fit csim text1 text2 thr2))) \<and>
   (\<forall>m\<in>set (plagiarized_sentences (level2_sentence_level tok fit csim text1 text2 thr2)).
      1 \<le> position m \<and>
      (\<exists>n. total_sentences (level2_sentence_level tok fit csim text1 text2 thr2) = Some n \<and>
           position m \<le> n) \<and>
      (\<exists>sentences1. tok text1 = Inr sentences1 \<and> sentence m = sentences1 ! (position m - 1))) \<and>
   sorted_wrt (<)
     (map position
        (semantic_plagiarized_sentences
           (level3_semantic_similarity sm tok csim text1 text2 thr3))) \<and>
   (\<forall>m\<in>set (semantic_plagiarized_sentences
               (level3_semantic_similarity sm tok csim text1 text2 thr3)).
      1 \<le> position m \<and>
      (\<exists>n. total_sentences (level3_semantic_similarity sm tok csim text1 text2 thr3) = Some n \<and>
           position m \<le> n) \<and>
      (\<exists>sentences1. tok text1 = Inr sentences1 \<and> sentence m = sentences1 ! (position m - 1)))"
proof (intro conjI ballI)
  show "sorted_wrt (<)
     (map position (plagiarized_sentences (level2_sentence_level tok fit csim text1 text2 thr2)))"
    using level2_result_cases[of tok fit csim text1 text2 thr2] level2_loop_positions
    by (metis list.simps(8) sorted_wrt.simps(1))
next
  show "sorted_wrt (<)
     (map position
        (semantic_plagiarized_sentences
           (level3_semantic_similarity sm tok csim text1 text2 thr3)))"
    using level3_result_cases[of sm tok csim text1 text2 thr3] level3_loop_positions
    by (metis list.simps(8) sorted_wrt.simps(1))
next
  fix m
  assume "m \<in> set (plagiarized_sentences (level2_sentence_level tok fit csim text1 text2 thr2))"
  from level2_match[OF this] obtain sentences1 i where
    "tok text1 = Inr sentences1"
    "total_sentences (level2_sentence_level tok fit csim text1 text2 thr2) =
      Some (length sentences1)"
    "i < length sentences1" "position m = i + 1" "sentence m = sentences1 ! i"
    by blast
  then show "1 \<le> position m"
    and "\<exists>n. total_sentences (level2_sentence_level tok fit csim text1 text2 thr2) = Some n \<and>
           position m \<le> n"
    and "\<exists>sentences1. tok text1 = Inr sentences1 \<and> sentence m = sentences1 ! (position m - 1)"
    by auto
next
  fix m
  assume "m \<in> set (semantic_plagiarized_sentences
      (level3_semantic_similarity sm tok csim text1 text2 thr3))"
  from level3_match[OF this] obtain sentences1 i where
    "tok text1 = Inr sentences1"
    "total_sentences (level3_semantic_similarity sm tok csim text1 text2 thr3) =
      Some (length sentences1)"
    "i < length sentences1" "position m = i + 1" "sentence m = sentences1 ! i"
    by blast
  then show "1 \<le> position m"
    and "\<exists>n. total_sentences (level3_semantic_similarity sm tok csim text1 text2 thr3) = Some n \<and>
           position m \<le> n"
    and "\<exists>sentences1. tok text1 = Inr sentences1 \<and> sentence m = sentences1 ! (position m - 1)"
    by auto
qed

section \<open>Two documents with matching sentences\<close>

text \<open>
  The first document has a short sentence and twice the sentence of the second document;
  both tiers match its sentences 2 and 3 with a score of 100 percent.
\<close>

lemma plain_sent_tokenize_three:
  "plain_sent_tokenize ''Hi. Plagiarism is bad. Plagiarism is bad.'' =
     Inr [''Hi.'', ''Plagiarism is bad.'', ''Plagiarism is bad.'']"
  by code_simp

lemma strip_hi: "strip ''Hi.'' = ''Hi.''"
  by code_simp

lemma tokens_plagiarism: "tokens (lower (preprocess_text ''Plagiarism is bad.'')) \<noteq> []"
  by code_simp

lemma tfidf_pair_similarity_plagiarism:
  "tfidf_pair_similarity tfidf_fit_transform pairwise_cosine
     (preprocess_text ''Plagiarism is bad.'') (preprocess_text ''Plagiarism is bad.'') = Inr 1"
  using tokens_plagiarism by (rule tfidf_pair_similarity_self)

lemma level2_example:
  "level2_sentence_level plain_sent_tokenize tfidf_fit_transform pairwise_cosine
     ''Hi. Plagiarism is bad. Plagiarism is bad.'' ''Plagiarism is bad.'' (7 / 10) =
     \<lparr>method_name = ''Sentence-Level Detection'',
      error = None,
      explanation = None,
      total_sentences = Some 3,
      threshold = Some 70,
      plagiarized_sentences =
        [\<lparr>sentence = ''Plagiarism is bad.'', matching_sentence = ''Plagiarism is bad.'',
          position = 2, similarity = 100\<rparr>,
         \<lparr>sentence = ''Plagiarism is bad.'', matching_sentence = ''Plagiarism is bad.'',
          position = 3, similarity = 100\<rparr>],
      plagiarized_count = 2\<rparr>"
  by (simp add: level2_sentence_level_def plain_sent_tokenize_three
      plain_sent_tokenize_plagiarism strip_hi strip_plagiarism
      tfidf_pair_similarity_plagiarism round2_100)

lemma pairwise_cosine_same:
  assumes "l2_norm v \<noteq> 0"
  shows "pairwise_cosine [v] [v] = Inr [[1]]"
proof -
  have "l2_norm (l2_normalize v) = 1" using assms by (rule l2_norm_normalize)
  then have "dot (l2_normalize v) (l2_normalize v) = 1" by (simp add: dot_self)
  then show ?thesis by (simp add: pairwise_cosine_def)
qed

lemma level3_example:
  "level3_semantic_similarity (Some letter_count_encode) plain_sent_tokenize pairwise_cosine
     ''Hi. Plagiarism is bad. Plagiarism is bad.'' ''Plagiarism is bad.'' (3 / 4) =
     \<lparr>method_name = ''Semantic Similarity (Transformer)'',
      error = None,
      explanation = Some ''Detects paraphrased content using meaning-based analysis'',
      total_sentences = Some 3,
      threshold = Some 75,
      semantic_plagiarized_sentences =
        [\<lparr>sentence = ''Plagiarism is bad.'', matching_sentence = ''Plagiarism is bad.'',
          position = 2, semantic_similarity = 100, type_tag = ''semantic''\<rparr>,
         \<lparr>sentence = ''Plagiarism is bad.'', matching_sentence = ''Plagiarism is bad.'',
          position = 3, semantic_similarity = 100, type_tag = ''semantic''\<rparr>],
      semantic_plagiarized_count = Some 2\<rparr>"
proof -
  define v where
    "v = map (\<lambda>c. real (count_list (lower ''Plagiarism is bad.'') c)) ''abcdefghijklmnopqrstuvwxyz''"
  have enc: "letter_count_encode [''Plagiarism is bad.''] = Inr [v]"
    by (simp add: letter_count_encode_def v_def)
  have "count_list (lower ''Plagiarism is bad.'') CHR ''p'' = 1" by code_simp
  then have "(1::real) \<in> set v" unfolding v_def by (simp add: image_iff)
  then have "l2_norm v \<noteq> 0" unfolding l2_norm_eq_0 by force
  then have "pairwise_cosine [v] [v] = Inr [[1]]" by (rule pairwise_cosine_same)
  then have sims: "level3_similarities letter_count_encode pairwise_cosine
      ''Plagiarism is bad.'' [v] = Inr [1]"
    by (simp add: level3_similarities_def enc item_def)
  show ?thesis
    by (simp add: level3_semantic_similarity_def plain_sent_tokenize_three
        plain_sent_tokenize_plagiarism strip_hi strip_plagiarism enc sims argmax_def item_def
        round2_100)
qed

theorem match_positions_witness:
  "map position
     (plagiarized_sentences
        (level2_sentence_level plain_sent_tokenize tfidf_fit_transform pairwise_cosine
           ''Hi. Plagiarism is bad. Plagiarism is bad.'' ''Plagiarism is bad.'' (7 / 10))) =
     [2, 3] \<and>
   sorted_wrt (<)
     (map position
        (plagiarized_sentences
           (level2_sentence_level plain_sent_tokenize tfidf_fit_transform pairwise_cosine
              ''Hi. Plagiarism is bad. Plagiarism is bad.'' ''Plagiarism is bad.'' (7 / 10)))) \<and>
   map position
     (semantic_plagiarized_sentences
        (level3_semantic_similarity (Some letter_count_encode) plain_sent_tokenize
           pairwise_cosine ''Hi. Plagiarism is bad. Plagiarism is bad.''
           ''Plagiarism is bad.'' (3 / 4))) =
     [2, 3] \<and>
   sorted_wrt (<)
     (map position
        (semantic_plagiarized_sentences
           (level3_semantic_similarity (Some letter_count_encode) plain_sent_tokenize
              pairwise_cosine ''Hi. Plagiarism is bad. Plagiarism is bad.''
              ''Plagiarism is bad.'' (3 / 4))))"
proof -
  note p = match_positions[of plain_sent_tokenize tfidf_fit_transform pairwise_cosine
      "''Hi. Plagiarism is bad. Plagiarism is bad.''" "''Plagiarism is bad.''" "7 / 10"
      "Some letter_count_encode" "3 / 4"]
  from p have "sorted_wrt (<)
     (map position
        (plagiarized_sentences
           (level2_sentence_level plain_sent_tokenize tfidf_fit_transform pairwise_cosine
              ''Hi. Plagiarism is bad. Plagiarism is bad.'' ''Plagiarism is bad.'' (7 / 10))))"
    by (rule conjunct1)
  moreover from p have "sorted_wrt (<)
     (map position
        (semantic_plagiarized_sentences
           (level3_semantic_similarity (Some letter_count_encode) plain_sent_tokenize
              pairwise_cosine ''Hi. Plagiarism is bad. Plagiarism is bad.''
              ''Plagiarism is bad.'' (3 / 4))))"
    by blast
  ultimately show ?thesis
    by (simp add: level2_example level3_example)
qed

text \<open>
  C3. Every match of Tier 2 carries the rounded percentage of a best score that is at
  least the threshold, and every match of Tier 3 likewise; with the default thresholds
  0.70 and 0.75 the percentages are at least 70 and 75. The best score is the one the
  loop ends with: a sentence whose best score is below the threshold gives no match.
\<close>

theorem match_scores_reach_threshold:
  "(\<forall>m\<in>set (plagiarized_sentences (level2_sentence_level tok fit csim text1 text2 thr2)).
      (\<exists>sentences2 v. tok text2 = Inr sentences2 \<and>
         level2_best_match fit csim (preprocess_text (sentence m)) sentences2 (0, []) =
           (v, matching_sentence m) \<and>
         thr2 \<le> v \<and> similarity m = round2 (v * 100)) \<and>
      round2 (thr2 * 100) \<le> similarity m) \<and>
   (\<forall>m\<in>set (plagiarized_sentences (level2_sentence_level tok fit csim text1 text2 (7 / 10))).
      70 \<le> similarity m) \<and>
   (\<forall>m\<in>set (semantic_plagiarized_sentences
               (level3_semantic_similarity sm tok csim text1 text2 thr3)).
      (\<exists>encode embeddings2 sims j. sm = Some encode \<and>
         level3_similarities encode csim (sentence m) embeddings2 = Inr sims \<and>
         argmax sims = Inr j \<and> thr3 \<le> sims ! j \<and>
         semantic_similarity m = round2 (sims ! j * 100)) \<and>
      round2 (thr3 * 100) \<le> semantic_similarity m) \<and>
   (\<forall>m\<in>set (semantic_plagiarized_sentences
               (level3_semantic_similarity sm tok csim text1 text2 (3 / 4))).
      75 \<le> semantic_similarity m)"
proof (intro conjI ballI)
  fix m
  assume "m \<in> set (plagiarized_sentences (level2_sentence_level tok fit csim text1 text2 thr2))"
  from level2_match[OF this] obtain sentences2 v where *: "tok text2 = Inr sentences2"
    "level2_best_match fit csim (preprocess_text (sentence m)) sentences2 (0, []) =
      (v, matching_sentence m)"
    "thr2 \<le> v" "similarity m = round2 (v * 100)"
    by blast
  then show "\<exists>sentences2 v. tok text2 = Inr sentences2 \<and>
         level2_best_match fit csim (preprocess_text (sentence m)) sentences2 (0, []) =
           (v, matching_sentence m) \<and>
         thr2 \<le> v \<and> similarity m = round2 (v * 100)"
    by blast
  show "round2 (thr2 * 100) \<le> similarity m"
    using *(3,4) by (simp add: round2_mono)
next
  fix m
  assume "m \<in> set (plagiarized_sentences
      (level2_sentence_level tok fit csim text1 text2 (7 / 10)))"
  from level2_match[OF this] obtain v where "7 / 10 \<le> v" "similarity m = round2 (v * 100)"
    by blast
  then show "70 \<le> similarity m" by (simp add: round2_threshold_70)
next
  fix m
  assume "m \<in> set (semantic_plagiarized_sentences
      (level3_semantic_similarity sm tok csim text1 text2 thr3))"
  from level3_match[OF this] obtain encode embeddings2 sims j where *: "sm = Some encode"
    "level3_similarities encode csim (sentence m) embeddings2 = Inr sims"
    "argmax sims = Inr j" "thr3 \<le> sims ! j"
    "semantic_similarity m = round2 (sims ! j * 100)"
    by blast
  then show "\<exists>encode embeddings2 sims j. sm = Some encode \<and>
         level3_similarities encode csim (sentence m) embeddings2 = Inr sims \<and>
         argmax sims = Inr j \<and> thr3 \<le> sims ! j \<and>
         semantic_similarity m = round2 (sims ! j * 100)"
    by blast
  show "round2 (thr3 * 100) \<le> semantic_similarity m"
    using *(4,5) by (simp add: round2_mono)
next
  fix m
  assume "m \<in> set (semantic_plagiarized_sentences
      (level3_semantic_similarity sm tok csim text1 text2 (3 / 4)))"
  from level3_match[OF this] obtain sims j where "3 / 4 \<le> sims ! j"
    "semantic_similarity m = round2 (sims ! j * 100)"
    by blast
  then show "75 \<le> semantic_similarity m" by (simp add: round2_threshold_75)
qed

theorem match_scores_reach_threshold_witness:
  "\<lparr>sentence = ''Plagiarism is bad.'', matching_sentence = ''Plagiarism is bad.'',
     position = 2, similarity = 100\<rparr>
     \<in> set (plagiarized_sentences
        (level2_sentence_level plain_sent_tokenize tfidf_fit_transform pairwise_cosine
           ''Hi. Plagiarism is bad. Plagiarism is bad.'' ''Plagiarism is bad.'' (7 / 10))) \<and>
   (70::real) \<le>
     similarity \<lparr>sentence = ''Plagiarism is bad.'', matching_sentence = ''Plagiarism is bad.'',
       position = 2, similarity = 100\<rparr> \<and>
   \<lparr>sentence = ''Plagiarism is bad.'', matching_sentence = ''Plagiarism is bad.'',
     position = 2, semantic_similarity = 100, type_tag = ''semantic''\<rparr>
     \<in> set (semantic_plagiarized_sentences
        (level3_semantic_similarity (Some letter_count_encode) plain_sent_tokenize
           pairwise_cosine ''Hi. Plagiarism is bad. Plagiarism is bad.''
           ''Plagiarism is bad.'' (3 / 4))) \<and>
   (75::real) \<le>
     semantic_similarity \<lparr>sentence = ''Plagiarism is bad.'',
       matching_sentence = ''Plagiarism is bad.'', position = 2,
       semantic_similarity = 100, type_tag = ''semantic''\<rparr>"
proof -
  note t = match_scores_reach_threshold[of plain_sent_tokenize tfidf_fit_transform
      pairwise_cosine "''Hi. Plagiarism is bad. Plagiarism is bad.''" "''Plagiarism is bad.''"
      "7 / 10" "Some letter_count_encode" "3 / 4"]
  have m2: "\<lparr>sentence = ''Plagiarism is bad.'', matching_sentence = ''Plagiarism is bad.'',
     position = 2, similarity = 100\<rparr>
     \<in> set (plagiarized_sentences
        (level2_sentence_level plain_sent_tokenize tfidf_fit_transform pairwise_cosine
           ''Hi. Plagiarism is bad. Plagiarism is bad.'' ''Plagiarism is bad.'' (7 / 10)))"
    by (simp add: level2_example)
  have m3: "\<lparr>sentence = ''Plagiarism is bad.'', matching_sentence = ''Plagiarism is bad.'',
     position = 2, semantic_similarity = 100, type_tag = ''semantic''\<rparr>
     \<in> set (semantic_plagiarized_sentences
        (level3_semantic_similarity (Some letter_count_encode) plain_sent_tokenize
           pairwise_cosine ''Hi. Plagiarism is bad. Plagiarism is bad.''
           ''Plagiarism is bad.'' (3 / 4)))"
    by (simp add: level3_example)
  from t m2 m3 show ?thesis by blast
qed

lemma candidate_score_long:
  "candidate_score fit csim a b = Some v \<Longrightarrow> 10 \<le> length (strip b)"
  by (simp add: candidate_score_def split: if_splits)

lemma level2_match_first_maximum:
  assumes "m \<in> set (plagiarized_sentences (level2_sentence_level tok fit csim text1 text2 thr))"
    and "0 < thr"
  shows "\<exists>sentences2 pre post v.
      tok text2 = Inr sentences2 \<and> sentences2 = pre @ matching_sentence m # post \<and>
      candidate_score fit csim (sentence m) (matching_sentence m) = Some v \<and>
      thr \<le> v \<and> similarity m = round2 (v * 100) \<and>
      (\<forall>b\<in>set sentences2. \<forall>w. candidate_score fit csim (sentence m) b = Some w \<longrightarrow> w \<le> v) \<and>
      (\<forall>b\<in>set pre. \<forall>w. candidate_score fit csim (sentence m) b = Some w \<longrightarrow> w < v)"
proof -
  from level2_match[OF assms(1)] obtain sentences2 v where s: "tok text2 = Inr sentences2"
    and best: "level2_best_match fit csim (preprocess_text (sentence m)) sentences2 (0, []) =
      (v, matching_sentence m)"
    and v: "thr \<le> v" "similarity m = round2 (v * 100)"
    by blast
  have "v \<noteq> 0" using v(1) assms(2) by simp
  with level2_best_match_spec[OF best] obtain pre post where
    "sentences2 = pre @ matching_sentence m # post"
    "candidate_score fit csim (sentence m) (matching_sentence m) = Some v"
    "\<forall>b\<in>set sentences2. \<forall>w. candidate_score fit csim (sentence m) b = Some w \<longrightarrow> w \<le> v"
    "\<forall>b\<in>set pre. \<forall>w. candidate_score fit csim (sentence m) b = Some w \<longrightarrow> w < v"
    by blast
  then show ?thesis using s v by blast
qed

text \<open>
  C9. With a positive threshold for Tier 2, so with the default 0.70, and with any
  threshold for Tier 3, so with the default 0.75, neither the \<open>sentence\<close> nor the
  \<open>matching_sentence\<close> of a match has a trimmed length below 10.
\<close>

theorem matches_leave_out_short_sentences:
  assumes "0 < thr2"
  shows "(\<forall>m\<in>set (plagiarized_sentences (level2_sentence_level tok fit csim text1 text2 thr2)).
            10 \<le> length (strip (sentence m)) \<and> 10 \<le> length (strip (matching_sentence m))) \<and>
         (\<forall>m\<in>set (semantic_plagiarized_sentences
                     (level3_semantic_similarity sm tok csim text1 text2 thr3)).
            10 \<le> length (strip (sentence m)) \<and> 10 \<le> length (strip (matching_sentence m)))"
proof (intro conjI ballI)
  fix m
  assume m: "m \<in> set (plagiarized_sentences
      (level2_sentence_level tok fit csim text1 text2 thr2))"
  from level2_match[OF m] show "10 \<le> length (strip (sentence m))" by blast
  from level2_match_first_maximum[OF m assms] obtain v where
    "candidate_score fit csim (sentence m) (matching_sentence m) = Some v"
    by blast
  then show "10 \<le> length (strip (matching_sentence m))" by (rule candidate_score_long)
next
  fix m
  assume m: "m \<in> set (semantic_plagiarized_sentences
      (level3_semantic_similarity sm tok csim text1 text2 thr3))"
  from level3_match[OF m] obtain sentences2 j where
    long: "10 \<le> length (strip (sentence m))"
    and j: "j < length (filter (\<lambda>s. 10 \<le> length (strip s)) sentences2)"
      "matching_sentence m = filter (\<lambda>s. 10 \<le> length (strip s)) sentences2 ! j"
    by blast
  show "10 \<le> length (strip (sentence m))" by (rule long)
  have "matching_sentence m \<in> set (filter (\<lambda>s. 10 \<le> length (strip s)) sentences2)"
    using j by (metis nth_mem)
  then show "10 \<le> length (strip (matching_sentence m))" by simp
qed

theorem matches_leave_out_short_sentences_witness:
  "(0::real) < 7 / 10 \<and>
   \<lparr>sentence = ''Plagiarism is bad.'', matching_sentence = ''Plagiarism is bad.'',
     position = 3, similarity = 100\<rparr>
     \<in> set (plagiarized_sentences
        (level2_sentence_level plain_sent_tokenize tfidf_fit_transform pairwise_cosine
           ''Hi. Plagiarism is bad. Plagiarism is bad.'' ''Plagiarism is bad.'' (7 / 10))) \<and>
   10 \<le> length (strip (sentence \<lparr>sentence = ''Plagiarism is bad.'',
     matching_sentence = ''Plagiarism is bad.'', position = 3, similarity = (100::real)\<rparr>)) \<and>
   10 \<le> length (strip (matching_sentence \<lparr>sentence = ''Plagiarism is bad.'',
     matching_sentence = ''Plagiarism is bad.'', position = 3, similarity = (100::real)\<rparr>)) \<and>
   \<lparr>sentence = ''Plagiarism is bad.'', matching_sentence = ''Plagiarism is bad.'',
     position = 3, semantic_similarity = 100, type_tag = ''semantic''\<rparr>
     \<in> set (semantic_plagiarized_sentences
        (level3_semantic_similarity (Some letter_count_encode) plain_sent_tokenize
           pairwise_cosine ''Hi. Plagiarism is bad. Plagiarism is bad.''
           ''Plagiarism is bad.'' (3 / 4))) \<and>
   10 \<le> length (strip (matching_sentence \<lparr>sentence = ''Plagiarism is bad.'',
     matching_sentence = ''Plagiarism is bad.'', position = 3,
     semantic_similarity = (100::real), type_tag = ''semantic''\<rparr>))"
proof -
  have thr: "(0::real) < 7 / 10" by simp
  note t = matches_leave_out_short_sentences[OF thr, of plain_sent_tokenize
      tfidf_fit_transform pairwise_cosine "''Hi. Plagiarism is bad. Plagiarism is bad.''"
      "''Plagiarism is bad.''" "Some letter_count_encode" "3 / 4"]
  have m2: "\<lparr>sentence = ''Plagiarism is bad.'', matching_sentence = ''Plagiarism is bad.'',
     position = 3, similarity = 100\<rparr>
     \<in> set (plagiarized_sentences
        (level2_sentence_level plain_sent_tokenize tfidf_fit_transform pairwise_cosine
           ''Hi. Plagiarism is bad. Plagiarism is bad.'' ''Plagiarism is bad.'' (7 / 10)))"
    by (simp add: level2_example)
  have m3: "\<lparr>sentence = ''Plagiarism is bad.'', matching_sentence = ''Plagiarism is bad.'',
     position = 3, semantic_similarity = 100, type_tag = ''semantic''\<rparr>
     \<in> set (semantic_plagiarized_sentences
        (level3_semantic_similarity (Some letter_count_encode) plain_sent_tokenize
           pairwise_cosine ''Hi. Plagiarism is bad. Plagiarism is bad.''
           ''Plagiarism is bad.'' (3 / 4)))"
    by (simp add: level3_example)
  from t thr m2 m3 show ?thesis by blast
qed




section \<open>Tier 1 on the reference vectorizer\<close>

lemma level1_failure_caught:
  assumes "fit [preprocess_text text1, preprocess_text text2] = Inl e"
  shows "level1_tfidf_similarity fit csim text1 text2 =
           \<lparr>method_name = ''TF-IDF + Cosine Similarity'',
            error = Some (str e),
            explanation = None,
            similarity_percentage = 0\<rparr>"
  using assms by (simp add: level1_tfidf_similarity_def tfidf_pair_similarity_def)

lemma tfidf_fit_transform_no_tokens:
  assumes "tokens (lower d1) = []" and "tokens (lower d2) = []"
  shows "tfidf_fit_transform [d1, d2] =
           Inl (Exception ''empty vocabulary; perhaps the documents only contain stop words'')"
  using assms by (simp add: tfidf_fit_transform_def)

lemma level1_no_tokens:
  assumes "tokens (preprocess_text text1) = []" and "tokens (preprocess_text text2) = []"
  shows "level1_tfidf_similarity tfidf_fit_transform csim text1 text2 =
           \<lparr>method_name = ''TF-IDF + Cosine Similarity'',
            error = Some ''empty vocabulary; perhaps the documents only contain stop words'',
            explanation = None,
            similarity_percentage = 0\<rparr>"
proof -
  have "tfidf_fit_transform [preprocess_text text1, preprocess_text text2] =
      Inl (Exception ''empty vocabulary; perhaps the documents only contain stop words'')"
    using assms by (intro tfidf_fit_transform_no_tokens) (simp_all add: lower_preprocess_text)
  then show ?thesis
    using level1_failure_caught[of tfidf_fit_transform text1 text2
        "Exception ''empty vocabulary; perhaps the documents only contain stop words''" csim]
    by simp
qed

lemma dot_zero: "\<forall>x\<in>set u. x = 0 \<Longrightarrow> dot u v = 0"
proof (induction u arbitrary: v)
  case Nil
  then show ?case by (simp add: dot_def)
next
  case (Cons a u)
  show ?case
  proof (cases v)
    case Nil
    then show ?thesis by (simp add: dot_def)
  next
    case (Cons b w)
    have "dot u w = 0" using Cons.prems by (intro Cons.IH) simp
    then show ?thesis using Cons.prems Cons by (simp add: dot_def)
  qed
qed

lemma l2_normalize_zero: "\<forall>x\<in>set u. x = 0 \<Longrightarrow> l2_normalize u = u"
  by (simp add: l2_normalize_def l2_norm_eq_0)

lemma tfidf_pair_similarity_first_empty:
  assumes "tokens (lower a) = []" and "tokens (lower b) \<noteq> []"
  shows "tfidf_pair_similarity tfidf_fit_transform pairwise_cosine a b = Inr 0"
proof -
  define tb where "tb = tokens (lower b)"
  define vocabulary where "vocabulary = sorted_list_of_set (set tb)"
  define wa where "wa = map (\<lambda>t. 0 :: real) vocabulary"
  define wb where "wb = map (\<lambda>t. real (count_list tb t) * idf [[], tb] t) vocabulary"
  have "set vocabulary = set tb" by (simp add: vocabulary_def)
  then have ne: "vocabulary \<noteq> []" using assms(2) by (cases tb) (auto simp: tb_def)
  have fit: "tfidf_fit_transform [a, b] = Inr [l2_normalize wa, l2_normalize wb]"
    using ne unfolding tfidf_fit_transform_pair assms(1) tb_def[symmetric]
    by (simp add: vocabulary_def[symmetric] wa_def wb_def)
  have zero: "\<forall>x\<in>set wa. x = 0" by (auto simp: wa_def)
  have len: "length wa = length wb" by (simp add: wa_def wb_def)
  have "dot (l2_normalize (l2_normalize wa)) (l2_normalize (l2_normalize wb)) = 0"
    using zero by (simp add: l2_normalize_zero dot_zero)
  then have "pairwise_cosine [l2_normalize wa] [l2_normalize wb] = Inr [[0]]"
    by (simp add: pairwise_cosine_def length_normalize len)
  then show ?thesis by (simp add: tfidf_pair_similarity_def fit item_def)
qed

lemma level1_one_document_without_tokens:
  assumes "tokens (preprocess_text text1) = [] \<and> tokens (preprocess_text text2) \<noteq> [] \<or>
           tokens (preprocess_text text1) \<noteq> [] \<and> tokens (preprocess_text text2) = []"
  shows "level1_tfidf_similarity tfidf_fit_transform pairwise_cosine text1 text2 =
           \<lparr>method_name = ''TF-IDF + Cosine Similarity'',
            error = None,
            explanation = Some ''Measures word overlap and frequency similarity'',
            similarity_percentage = 0\<rparr>"
proof -
  have "tfidf_pair_similarity tfidf_fit_transform pairwise_cosine (preprocess_text text1)
      (preprocess_text text2) = Inr 0"
    using assms
      tfidf_pair_similarity_first_empty[of "preprocess_text text1" "preprocess_text text2"]
      tfidf_pair_similarity_first_empty[of "preprocess_text text2" "preprocess_text text1"]
      tfidf_pair_similarity_commute[of "preprocess_text text1" "preprocess_text text2"]
    by (auto simp: lower_preprocess_text)
  then show ?thesis by (simp add: level1_tfidf_similarity_def round2_0)
qed

lemma level1_same_normal_form:
  assumes "preprocess_text text1 = preprocess_text text2"
    and "tokens (preprocess_text text1) \<noteq> []"
  shows "level1_tfidf_similarity tfidf_fit_transform pairwise_cosine text1 text2 =
           \<lparr>method_name = ''TF-IDF + Cosine Similarity'',
            error = None,
            explanation = Some ''Measures word overlap and frequency similarity'',
            similarity_percentage = 100\<rparr>"
proof -
  have "tfidf_pair_similarity tfidf_fit_transform pairwise_cosine (preprocess_text text1)
      (preprocess_text text1) = Inr 1"
    using assms(2) by (intro tfidf_pair_similarity_self) (simp add: lower_preprocess_text)
  then show ?thesis using assms(1) by (simp add: level1_tfidf_similarity_def round2_100)
qed

lemma preprocess_text_marks: "preprocess_text ''!!!!!!!!!!'' = []"
  by code_simp

lemma preprocess_text_letters: "preprocess_text ''A b, c d: e f.'' = ''a b c d e f''"
  by code_simp

lemma tokens_letters: "tokens ''a b c d e f'' = []"
  by code_simp

lemma preprocess_text_plagiarism: "preprocess_text ''Plagiarism is bad.'' = ''plagiarism is bad''"
  by code_simp

lemma preprocess_text_shouted: "preprocess_text ''PLAGIARISM   is bad!!'' = ''plagiarism is bad''"
  by code_simp

lemma tokens_plagiarism_words: "tokens ''plagiarism is bad'' = [''plagiarism'', ''is'', ''bad'']"
  by code_simp

text \<open>
  C6 (as amended). If both documents normalize to an empty token set, the vectorization
  fails, and Tier 1 returns a result with \<open>similarity_percentage\<close> 0 and an \<open>error\<close> key
  holding the fault's message. The fault is a value inside the function: nothing is
  raised to the caller.
\<close>

theorem level1_vectorization_failure:
  assumes "tokens (preprocess_text text1) = []" and "tokens (preprocess_text text2) = []"
  shows "tfidf_fit_transform [preprocess_text text1, preprocess_text text2] =
           Inl (Exception ''empty vocabulary; perhaps the documents only contain stop words'') \<and>
         level1_tfidf_similarity tfidf_fit_transform csim text1 text2 =
           \<lparr>method_name = ''TF-IDF + Cosine Similarity'',
            error = Some ''empty vocabulary; perhaps the documents only contain stop words'',
            explanation = None,
            similarity_percentage = 0\<rparr>"
proof
  show "tfidf_fit_transform [preprocess_text text1, preprocess_text text2] =
      Inl (Exception ''empty vocabulary; perhaps the documents only contain stop words'')"
    using assms by (intro tfidf_fit_transform_no_tokens) (simp_all add: lower_preprocess_text)
  show "level1_tfidf_similarity tfidf_fit_transform csim text1 text2 =
      \<lparr>method_name = ''TF-IDF + Cosine Similarity'',
       error = Some ''empty vocabulary; perhaps the documents only contain stop words'',
       explanation = None,
       similarity_percentage = 0\<rparr>"
    using assms by (rule level1_no_tokens)
qed

theorem level1_vectorization_failure_witness:
  "tokens (preprocess_text ''!!!!!!!!!!'') = [] \<and>
   tokens (preprocess_text ''A b, c d: e f.'') = [] \<and>
   level1_tfidf_similarity tfidf_fit_transform pairwise_cosine ''!!!!!!!!!!''
     ''A b, c d: e f.'' =
     \<lparr>method_name = ''TF-IDF + Cosine Similarity'',
      error = Some ''empty vocabulary; perhaps the documents only contain stop words'',
      explanation = None,
      similarity_percentage = 0\<rparr>"
proof -
  have 1: "tokens (preprocess_text ''!!!!!!!!!!'') = []"
    by (simp add: preprocess_text_marks tokens_def)
  have 2: "tokens (preprocess_text ''A b, c d: e f.'') = []"
    by (simp only: preprocess_text_letters tokens_letters)
  from level1_vectorization_failure[OF 1 2, of pairwise_cosine] 1 2 show ?thesis by blast
qed

text \<open>
  The claim as stated fails when only one of the two documents normalizes to an empty
  token set: the vocabulary is that of the other document, the vectorization does not
  fail, and Tier 1 returns \<open>similarity_percentage\<close> 0 without an \<open>error\<close> key.
\<close>

theorem level1_vectorization_failure_counterexample:
  "tokens (preprocess_text ''!!!!!!!!!!'') = [] \<and>
   level1_tfidf_similarity tfidf_fit_transform pairwise_cosine ''!!!!!!!!!!''
     ''Plagiarism is bad.'' =
     \<lparr>method_name = ''TF-IDF + Cosine Similarity'',
      error = None,
      explanation = Some ''Measures word overlap and frequency similarity'',
      similarity_percentage = 0\<rparr>"
proof -
  have 1: "tokens (preprocess_text ''!!!!!!!!!!'') = []"
    by (simp add: preprocess_text_marks tokens_def)
  have 2: "tokens (preprocess_text ''Plagiarism is bad.'') \<noteq> []"
    by (simp only: preprocess_text_plagiarism tokens_plagiarism_words) simp
  from 1 2 level1_one_document_without_tokens[of "''!!!!!!!!!!''" "''Plagiarism is bad.''"]
  show ?thesis by blast
qed

text \<open>
  C4 (as amended). For every text whose normalized form has at least one token, Tier 1
  applied to the pair of the text with itself returns \<open>similarity_percentage\<close> 100, with
  no \<open>error\<close> key. In exact arithmetic the score is 100, with no rounding tolerance
  needed.
\<close>

theorem level1_self_similarity:
  assumes "tokens (preprocess_text t) \<noteq> []"
  shows "level1_tfidf_similarity tfidf_fit_transform pairwise_cosine t t =
           \<lparr>method_name = ''TF-IDF + Cosine Similarity'',
            error = None,
            explanation = Some ''Measures word overlap and frequency similarity'',
            similarity_percentage = 100\<rparr>"
  using assms by (intro level1_same_normal_form) simp_all

theorem level1_self_similarity_witness:
  "tokens (preprocess_text ''Plagiarism is bad.'') \<noteq> [] \<and>
   level1_tfidf_similarity tfidf_fit_transform pairwise_cosine ''Plagiarism is bad.''
     ''Plagiarism is bad.'' =
     \<lparr>method_name = ''TF-IDF + Cosine Similarity'',
      error = None,
      explanation = Some ''Measures word overlap and frequency similarity'',
      similarity_percentage = 100\<rparr>"
proof -
  have 1: "tokens (preprocess_text ''Plagiarism is bad.'') \<noteq> []"
    by (simp only: preprocess_text_plagiarism tokens_plagiarism_words) simp
  from level1_self_similarity[OF 1] 1 show ?thesis by blast
qed

text \<open>
  The claim as stated fails for a text without a token: the vectorization of the pair
  fails, and Tier 1 returns \<open>similarity_percentage\<close> 0 with an \<open>error\<close> key.
\<close>

theorem level1_self_similarity_counterexample:
  "level1_tfidf_similarity tfidf_fit_transform pairwise_cosine ''A b, c d: e f.''
     ''A b, c d: e f.'' =
     \<lparr>method_name = ''TF-IDF + Cosine Similarity'',
      error = Some ''empty vocabulary; perhaps the documents only contain stop words'',
      explanation = None,
      similarity_percentage = 0\<rparr>"
proof -
  have "tokens (preprocess_text ''A b, c d: e f.'') = []"
    by (simp only: preprocess_text_letters tokens_letters)
  then show ?thesis by (intro level1_no_tokens)
qed

text \<open>
  C7. Tier 1 is symmetric: for all documents A and B the \<open>similarity_percentage\<close> of the
  pair (A, B) is that of the pair (B, A).
\<close>

theorem level1_symmetric:
  "similarity_percentage (level1_tfidf_similarity tfidf_fit_transform pairwise_cosine a b) =
   similarity_percentage (level1_tfidf_similarity tfidf_fit_transform pairwise_cosine b a)"
  by (simp add: level1_tfidf_similarity_def
      tfidf_pair_similarity_commute[of "preprocess_text a" "preprocess_text b"])

theorem level1_symmetric_witness:
  "similarity_percentage
     (level1_tfidf_similarity tfidf_fit_transform pairwise_cosine ''Plagiarism is bad.''
        ''PLAGIARISM   is bad!!'') = 100 \<and>
   similarity_percentage
     (level1_tfidf_similarity tfidf_fit_transform pairwise_cosine ''PLAGIARISM   is bad!!''
        ''Plagiarism is bad.'') = 100"
proof -
  have eq: "preprocess_text ''Plagiarism is bad.'' = preprocess_text ''PLAGIARISM   is bad!!''"
    by (simp only: preprocess_text_plagiarism preprocess_text_shouted)
  have ne: "tokens (preprocess_text ''Plagiarism is bad.'') \<noteq> []"
    by (simp only: preprocess_text_plagiarism tokens_plagiarism_words) simp
  have "similarity_percentage
     (level1_tfidf_similarity tfidf_fit_transform pairwise_cosine ''Plagiarism is bad.''
        ''PLAGIARISM   is bad!!'') = 100"
    using level1_same_normal_form[OF eq ne] by simp
  with level1_symmetric[of "''Plagiarism is bad.''" "''PLAGIARISM   is bad!!''"]
  show ?thesis by simp
qed

end
